theory Spec2Isabelle
  imports Main
begin

section \<open>Persisted data (types.ts)\<close>

text \<open>
  A JavaScript \<open>Error\<close> is modelled by its message; \<open>NonError\<close> is a thrown value that
  is not an \<open>Error\<close> (the WASM module can throw one). A function that can throw returns
  \<open>error + 'a\<close>, with \<open>Inl\<close> for the thrown error. Storage calls
  (\<open>chrome.storage.local\<close>) are taken to succeed, and every exported operation runs
  from its first line to its last without another operation running in between.
\<close>

datatype error = Error string | NonError

text \<open>\<open>err instanceof Error ? err.message : 'Unknown error'\<close>\<close>

fun errorMessage :: "error \<Rightarrow> string" where
  "errorMessage (Error m) = m"
| "errorMessage NonError = ''Unknown error''"

record Account =
  index :: int
  name :: string
  address :: string
  publicKeyHex :: string

record EncryptedWallet =
  encryptedMnemonic :: string
  salt :: string
  iv :: string
  accounts :: "Account list"
  activeAccountIndex :: int

text \<open>The fields of \<open>Keypair\<close> (wasm.ts) carry a prefix, since \<open>Account\<close> has the same names.\<close>

record Keypair =
  kpAddress :: string
  kpPublicKeyHex :: string
  kpSecretKeyHex :: string

text \<open>The fields of \<open>ConnectedSite\<close> carry a prefix for the same reason.\<close>

record ConnectedSite =
  siteOrigin :: string
  siteName :: string
  connectedAt :: nat

record Network =
  networkId :: string
  networkName :: string
  graphqlUrl :: string
  explorerUrl :: string

definition NETWORKS :: "(string \<times> Network) list" where
  "NETWORKS =
    [(''mainnet'', \<lparr>networkId = ''mainnet'', networkName = ''Mainnet'',
        graphqlUrl = ''https://api.minascan.io/node/mainnet/v1/graphql'',
        explorerUrl = ''https://minascan.io/mainnet''\<rparr>),
     (''devnet'', \<lparr>networkId = ''devnet'', networkName = ''Devnet'',
        graphqlUrl = ''https://api.minascan.io/node/devnet/v1/graphql'',
        explorerUrl = ''https://minascan.io/devnet''\<rparr>)]"

text \<open>
  \<open>chrome.storage.local\<close>, restricted to the keys of \<open>STORAGE_KEYS\<close> that the modelled
  code reads or writes. \<open>None\<close> is a key that is not set (\<open>undefined\<close>).
\<close>

record Storage =
  ENCRYPTED_WALLET :: "EncryptedWallet option"
  ACTIVE_NETWORK :: "string option"
  CONNECTED_SITES :: "ConnectedSite list option"
  LAST_ACTIVITY :: "nat option"

section \<open>Storage utilities (lib/storage.ts)\<close>

definition getEncryptedWallet :: "Storage \<Rightarrow> EncryptedWallet option" where
  "getEncryptedWallet st = ENCRYPTED_WALLET st"

definition setEncryptedWallet :: "EncryptedWallet \<Rightarrow> Storage \<Rightarrow> Storage" where
  "setEncryptedWallet w st = st\<lparr>ENCRYPTED_WALLET := Some w\<rparr>"

definition hasWallet :: "Storage \<Rightarrow> bool" where
  "hasWallet st = (getEncryptedWallet st \<noteq> None)"

text \<open>
  \<open>NETWORKS\<close> is a plain object, so \<open>NETWORKS[key]\<close> and \<open>key in NETWORKS\<close> also find the
  members it inherits from \<open>Object.prototype\<close>. Such a member (a function, or the prototype
  itself for \<open>__proto__\<close>) is kept by its name; it is not nullish and has no \<open>id\<close>.
\<close>

datatype NetworkValue = KnownNetwork Network | InheritedMember string

definition objectPrototypeKeys :: "string list" where
  "objectPrototypeKeys =
    [''constructor'', ''__defineGetter__'', ''__defineSetter__'', ''hasOwnProperty'',
     ''__lookupGetter__'', ''__lookupSetter__'', ''isPrototypeOf'', ''propertyIsEnumerable'',
     ''toString'', ''valueOf'', ''__proto__'', ''toLocaleString'']"

definition lookupNETWORKS :: "string \<Rightarrow> NetworkValue option" where
  "lookupNETWORKS key =
    (case map_of NETWORKS key of
       Some n \<Rightarrow> Some (KnownNetwork n)
     | None \<Rightarrow> if key \<in> set objectPrototypeKeys then Some (InheritedMember key) else None)"

definition getActiveNetwork :: "Storage \<Rightarrow> NetworkValue" where
  "getActiveNetwork st =
    (let mainnet = snd (hd NETWORKS) in
     case lookupNETWORKS (case ACTIVE_NETWORK st of None \<Rightarrow> ''mainnet'' | Some n \<Rightarrow> n) of
       None \<Rightarrow> KnownNetwork mainnet
     | Some v \<Rightarrow> v)"

definition setActiveNetwork :: "string \<Rightarrow> Storage \<Rightarrow> error + Storage" where
  "setActiveNetwork nid st =
    (if lookupNETWORKS nid = None then Inl (Error (''Unknown network: '' @ nid))
     else Inr (st\<lparr>ACTIVE_NETWORK := Some nid\<rparr>))"

definition getConnectedSites :: "Storage \<Rightarrow> ConnectedSite list" where
  "getConnectedSites st = (case CONNECTED_SITES st of None \<Rightarrow> [] | Some s \<Rightarrow> s)"

text \<open>\<open>find\<close> returns the first match, and the update is made on that element in place.\<close>

fun updateFirstSite :: "string \<Rightarrow> string \<Rightarrow> nat \<Rightarrow> ConnectedSite list \<Rightarrow> ConnectedSite list" where
  "updateFirstSite origin nm now [] = []"
| "updateFirstSite origin nm now (s # ss) =
    (if siteOrigin s = origin then s\<lparr>siteName := nm, connectedAt := now\<rparr> # ss
     else s # updateFirstSite origin nm now ss)"

definition addConnectedSite :: "string \<Rightarrow> string \<Rightarrow> nat \<Rightarrow> Storage \<Rightarrow> Storage" where
  "addConnectedSite origin nm now st =
    (let sites = getConnectedSites st in
     case find (\<lambda>s. siteOrigin s = origin) sites of
       Some existing \<Rightarrow> st\<lparr>CONNECTED_SITES := Some (updateFirstSite origin nm now sites)\<rparr>
     | None \<Rightarrow>
         st\<lparr>CONNECTED_SITES :=
              Some (sites @ [\<lparr>siteOrigin = origin, siteName = nm, connectedAt = now\<rparr>])\<rparr>)"

definition removeConnectedSite :: "string \<Rightarrow> Storage \<Rightarrow> Storage" where
  "removeConnectedSite origin st =
    st\<lparr>CONNECTED_SITES := Some (filter (\<lambda>s. siteOrigin s \<noteq> origin) (getConnectedSites st))\<rparr>"

definition isSiteConnected :: "string \<Rightarrow> Storage \<Rightarrow> bool" where
  "isSiteConnected origin st = list_ex (\<lambda>s. siteOrigin s = origin) (getConnectedSites st)"

definition updateLastActivity :: "nat \<Rightarrow> Storage \<Rightarrow> Storage" where
  "updateLastActivity now st = st\<lparr>LAST_ACTIVITY := Some now\<rparr>"

section \<open>Account management (lib/accounts.ts)\<close>

text \<open>
  Decimal rendering of an integer inside a template string. JavaScript writes every digit
  of an integer below \<open>10^21\<close> in absolute value, which is what this function does; from
  there on it uses the exponent form, which is not modelled.
\<close>

fun digitsOf :: "nat \<Rightarrow> string" where
  "digitsOf n =
    (if n < 10 then [char_of (48 + n)] else digitsOf (n div 10) @ [char_of (48 + n mod 10)])"

declare digitsOf.simps [simp del]

definition numberToString :: "int \<Rightarrow> string" where
  "numberToString i = (if i < 0 then CHR ''-'' # digitsOf (nat (- i)) else digitsOf (nat i))"

definition getAccounts :: "Storage \<Rightarrow> Account list" where
  "getAccounts st = (case getEncryptedWallet st of None \<Rightarrow> [] | Some w \<Rightarrow> accounts w)"

text \<open>
  \<open>wallet.accounts[wallet.activeAccountIndex] ?? wallet.accounts[0]\<close>: the pointer is used
  as an array position here, and a position outside the array gives \<open>undefined\<close>.
\<close>

definition getActiveAccount :: "Storage \<Rightarrow> Account option" where
  "getActiveAccount st =
    (case getEncryptedWallet st of
       None \<Rightarrow> None
     | Some w \<Rightarrow>
         (case accounts w of
            [] \<Rightarrow> None
          | a # as \<Rightarrow>
              (let i = activeAccountIndex w in
               if 0 \<le> i \<and> i < int (length (accounts w)) then Some (accounts w ! nat i)
               else Some a)))"

definition getAccountByIndex :: "int \<Rightarrow> Storage \<Rightarrow> Account option" where
  "getAccountByIndex i st = find (\<lambda>a. index a = i) (getAccounts st)"

definition setActiveAccount :: "int \<Rightarrow> Storage \<Rightarrow> error + Storage" where
  "setActiveAccount accountIndex st =
    (case getEncryptedWallet st of
       None \<Rightarrow> Inl (Error ''No wallet found'')
     | Some w \<Rightarrow>
         (case find (\<lambda>a. index a = accountIndex) (accounts w) of
            None \<Rightarrow> Inl (Error (''Account '' @ numberToString accountIndex @ '' not found''))
          | Some account \<Rightarrow>
              Inr (setEncryptedWallet (w\<lparr>activeAccountIndex := accountIndex\<rparr>) st)))"

text \<open>\<open>wallet.accounts.reduce((max, a) => Math.max(max, a.index), -1)\<close>\<close>

definition maxIndex :: "Account list \<Rightarrow> int" where
  "maxIndex as = foldl (\<lambda>m a. max m (index a)) (- 1) as"

text \<open>
  \<open>n + 1\<close> on a JavaScript number holding the integer \<open>n\<close>. The sum is exact from
  \<open>-2^53\<close> up to \<open>2^53 - 1\<close>. Beyond, the integers a double can hold are at least 2 apart:
  up to \<open>2^54\<close> in absolute value the sum lies half way between \<open>n\<close> and \<open>n + 2\<close> and is
  rounded to the one with the even significand, and further out it is rounded back to \<open>n\<close>.
\<close>

definition jsAddOne :: "int \<Rightarrow> int" where
  "jsAddOne n =
    (if - (2 ^ 53) \<le> n \<and> n < 2 ^ 53 then n + 1
     else if \<bar>n\<bar> < 2 ^ 54 then (if (n div 2) mod 2 = 0 then n else n + 2)
     else n)"

text \<open>
  The key pair comes from the WASM module; its outcome (a key pair, or the error thrown
  when the module cannot be initialised) is an input of the model.

  \<open>createAccount\<close> awaits three times: the read of the wallet, the key pair, the write.
  \<open>createAccountAfterRead\<close> is everything between the read and the write: it takes the
  wallet the read returned and gives the new account and the wallet to be written.
  \<open>createAccount\<close> itself is a call that no other writer of the wallet overlaps: what it
  writes is computed from what the storage holds when it writes.
\<close>

definition createAccountAfterRead ::
  "string option \<Rightarrow> error + Keypair \<Rightarrow> EncryptedWallet option \<Rightarrow>
   error + (Account \<times> EncryptedWallet)" where
  "createAccountAfterRead nm generateKeypair wallet =
    (case wallet of
       None \<Rightarrow> Inl (Error ''No wallet found'')
     | Some w \<Rightarrow>
         (let newIndex = jsAddOne (maxIndex (accounts w)) in
          case generateKeypair of
            Inl e \<Rightarrow> Inl e
          | Inr keypair \<Rightarrow>
              (let account = \<lparr>index = newIndex,
                              name = (case nm of
                                        None \<Rightarrow> ''Account '' @ numberToString (jsAddOne newIndex)
                                      | Some n \<Rightarrow> n),
                              address = kpAddress keypair,
                              publicKeyHex = kpPublicKeyHex keypair\<rparr>
               in Inr (account,
                       w\<lparr>accounts := accounts w @ [account], activeAccountIndex := newIndex\<rparr>))))"

definition createAccount ::
  "string option \<Rightarrow> error + Keypair \<Rightarrow> Storage \<Rightarrow> error + (Account \<times> Storage)" where
  "createAccount nm generateKeypair st =
    (case createAccountAfterRead nm generateKeypair (getEncryptedWallet st) of
       Inl e \<Rightarrow> Inl e
     | Inr (account, wallet) \<Rightarrow> Inr (account, setEncryptedWallet wallet st))"

fun renameFirst :: "int \<Rightarrow> string \<Rightarrow> Account list \<Rightarrow> Account list" where
  "renameFirst i newName [] = []"
| "renameFirst i newName (a # as) =
    (if index a = i then a\<lparr>name := newName\<rparr> # as else a # renameFirst i newName as)"

definition renameAccount :: "int \<Rightarrow> string \<Rightarrow> Storage \<Rightarrow> error + Storage" where
  "renameAccount accountIndex newName st =
    (case getEncryptedWallet st of
       None \<Rightarrow> Inl (Error ''No wallet found'')
     | Some w \<Rightarrow>
         (case find (\<lambda>a. index a = accountIndex) (accounts w) of
            None \<Rightarrow> Inl (Error (''Account '' @ numberToString accountIndex @ '' not found''))
          | Some account \<Rightarrow>
              Inr (setEncryptedWallet
                     (w\<lparr>accounts := renameFirst accountIndex newName (accounts w)\<rparr>) st)))"

text \<open>\<open>findIndex\<close>: the position of the first match, \<open>None\<close> for JavaScript's \<open>-1\<close>.\<close>

fun findIndex :: "('a \<Rightarrow> bool) \<Rightarrow> 'a list \<Rightarrow> nat option" where
  "findIndex P [] = None"
| "findIndex P (x # xs) =
    (if P x then Some 0 else (case findIndex P xs of None \<Rightarrow> None | Some k \<Rightarrow> Some (Suc k)))"

text \<open>\<open>splice(k, 1)\<close>: the element at position \<open>k\<close> is removed.\<close>

definition splice1 :: "nat \<Rightarrow> 'a list \<Rightarrow> 'a list" where
  "splice1 k xs = take k xs @ drop (Suc k) xs"

text \<open>
  After the splice the list is not empty (it had at least two elements), so
  \<open>wallet.accounts[0]\<close> is its head; the empty case is written out as the
  \<open>TypeError\<close> that reading \<open>.index\<close> of \<open>undefined\<close> throws.
\<close>

definition deleteAccount :: "int \<Rightarrow> Storage \<Rightarrow> error + Storage" where
  "deleteAccount accountIndex st =
    (case getEncryptedWallet st of
       None \<Rightarrow> Inl (Error ''No wallet found'')
     | Some w \<Rightarrow>
         if length (accounts w) \<le> 1 then Inl (Error ''Cannot delete the last account'')
         else
           (case findIndex (\<lambda>a. index a = accountIndex) (accounts w) of
              None \<Rightarrow> Inl (Error (''Account '' @ numberToString accountIndex @ '' not found''))
            | Some accountIdx \<Rightarrow>
                (let as = splice1 accountIdx (accounts w) in
                 if activeAccountIndex w = accountIndex then
                   (case as of
                      [] \<Rightarrow> Inl (Error ''TypeError'')
                    | a # _ \<Rightarrow>
                        Inr (setEncryptedWallet
                               (w\<lparr>accounts := as, activeAccountIndex := index a\<rparr>) st))
                 else Inr (setEncryptedWallet (w\<lparr>accounts := as\<rparr>) st))))"

definition createWalletFromMnemonic ::
  "string \<Rightarrow> string \<Rightarrow> error + Keypair \<Rightarrow> Storage \<Rightarrow> error + (Account \<times> Storage)" where
  "createWalletFromMnemonic mnemonic password generateKeypair st =
    (case generateKeypair of
       Inl e \<Rightarrow> Inl e
     | Inr keypair \<Rightarrow>
         (let account = \<lparr>index = 0, name = ''Account 1'', address = kpAddress keypair,
                         publicKeyHex = kpPublicKeyHex keypair\<rparr>;
              wallet = \<lparr>encryptedMnemonic = mnemonic, salt = ''placeholder-salt'',
                        iv = ''placeholder-iv'', accounts = [account], activeAccountIndex = 0\<rparr>
          in Inr (account, setEncryptedWallet wallet st)))"

definition importWalletFromMnemonic ::
  "string \<Rightarrow> string \<Rightarrow> error + Keypair \<Rightarrow> Storage \<Rightarrow> error + (Account \<times> Storage)" where
  "importWalletFromMnemonic mnemonic password generateKeypair st =
    createWalletFromMnemonic mnemonic password generateKeypair st"

text \<open>
  The two WASM parsers (\<open>keypairFromSecretKeyHex\<close>, \<open>keypairFromBase58\<close>) are
  parameters: each maps a key string to a key pair or to the error it throws.
\<close>

definition importAccountAfterRead ::
  "(string \<Rightarrow> error + Keypair) \<Rightarrow> (string \<Rightarrow> error + Keypair) \<Rightarrow>
   string \<Rightarrow> string option \<Rightarrow> EncryptedWallet option \<Rightarrow>
   error + (Account \<times> EncryptedWallet)" where
  "importAccountAfterRead keypairFromSecretKeyHex keypairFromBase58 privateKey nm wallet =
    (case wallet of
       None \<Rightarrow> Inl (Error ''No wallet found'')
     | Some w \<Rightarrow>
         (case (if length privateKey = 64 then keypairFromSecretKeyHex privateKey
                else keypairFromBase58 privateKey) of
            Inl e \<Rightarrow> Inl e
          | Inr keypair \<Rightarrow>
              (case find (\<lambda>a. address a = kpAddress keypair) (accounts w) of
                 Some existing \<Rightarrow> Inl (Error ''Account already exists'')
               | None \<Rightarrow>
                   (let newIndex = jsAddOne (maxIndex (accounts w));
                        account = \<lparr>index = newIndex,
                                   name = (case nm of
                                             None \<Rightarrow>
                                               ''Imported '' @ numberToString (jsAddOne newIndex)
                                           | Some n \<Rightarrow> n),
                                   address = kpAddress keypair,
                                   publicKeyHex = kpPublicKeyHex keypair\<rparr>
                    in Inr (account,
                            w\<lparr>accounts := accounts w @ [account],
                              activeAccountIndex := newIndex\<rparr>)))))"

text \<open>As for \<open>createAccount\<close>: a call that no other writer of the wallet overlaps.\<close>

definition importAccountFromPrivateKey ::
  "(string \<Rightarrow> error + Keypair) \<Rightarrow> (string \<Rightarrow> error + Keypair) \<Rightarrow>
   string \<Rightarrow> string option \<Rightarrow> Storage \<Rightarrow> error + (Account \<times> Storage)" where
  "importAccountFromPrivateKey keypairFromSecretKeyHex keypairFromBase58 privateKey nm st =
    (case importAccountAfterRead keypairFromSecretKeyHex keypairFromBase58 privateKey nm
            (getEncryptedWallet st) of
       Inl e \<Rightarrow> Inl e
     | Inr (account, wallet) \<Rightarrow> Inr (account, setEncryptedWallet wallet st))"

section \<open>Background service worker (background.ts)\<close>

text \<open>
  The session state is the two module-level variables \<open>isUnlocked\<close> and
  \<open>_decryptedMnemonic\<close>; \<open>storage\<close> is the persisted state the handlers read and write.
\<close>

record World =
  isUnlocked :: bool
  decryptedMnemonic :: "string option"
  storage :: Storage

text \<open>
  What the outside supplies to one run of \<open>handleMessage\<close>: the two readings of
  \<open>Date.now()\<close> (in \<open>updateLastActivity\<close> and in \<open>addConnectedSite\<close>) and the outcome of
  \<open>generateKeypair\<close>.
\<close>

record Env =
  envNow :: nat
  envConnectNow :: nat
  envKeypair :: "error + Keypair"

datatype PaymentPayload =
  PaymentPayload string string string string int "string option" "int option"

datatype DelegationPayload =
  DelegationPayload string string string int

text \<open>
  \<open>BackgroundAction\<close> of types.ts, one constructor per \<open>action\<close> tag; \<open>OtherAction\<close> is a
  message whose tag is none of them (the \<open>default\<close> branch).
\<close>

datatype BackgroundAction =
    CreateWallet string string
  | ImportWallet string string
  | UnlockWallet string
  | LockWallet
  | IsLocked
  | HasWallet
  | GetAccounts
  | CreateAccount "string option"
  | RenameAccount int string
  | SetActiveAccount int
  | GetActiveAccount
  | ExportPrivateKey int string
  | GetBalance string
  | GetTransactions string
  | SendPayment PaymentPayload string
  | SendDelegation DelegationPayload string
  | SignMessage string string
  | SignFields "string list" string
  | GetNetwork
  | SwitchNetwork string
  | GetConnectedSites
  | ConnectSite string string
  | DisconnectSite string
  | IsConnected string
  | OtherAction string

text \<open>The objects \<open>handleMessage\<close> returns, one constructor per shape.\<close>

datatype Response =
    HasWalletResult bool
  | IsLockedResult bool
  | SuccessAccount Account
  | Success
  | Failure string
  | AccountsResult "Account list"
  | AccountResult "Account option"
  | NetworkResult NetworkValue
  | SitesResult "ConnectedSite list"
  | ConnectedResult bool
  | BalanceResult string
  | TransactionsResult

text \<open>The body of the \<open>switch\<close>, after \<open>updateLastActivity\<close>; \<open>Inl\<close> is a throw.\<close>

fun dispatch :: "Env \<Rightarrow> BackgroundAction \<Rightarrow> World \<Rightarrow> error + (Response \<times> World)" where
  "dispatch env HasWallet w = Inr (HasWalletResult (hasWallet (storage w)), w)"
| "dispatch env IsLocked w = Inr (IsLockedResult (\<not> isUnlocked w), w)"
| "dispatch env (CreateWallet mnemonic password) w =
    (case createWalletFromMnemonic mnemonic password (envKeypair env) (storage w) of
       Inl e \<Rightarrow> Inl e
     | Inr (account, st) \<Rightarrow>
         Inr (SuccessAccount account,
              w\<lparr>storage := st, decryptedMnemonic := Some mnemonic, isUnlocked := True\<rparr>))"
| "dispatch env (ImportWallet mnemonic password) w =
    (case importWalletFromMnemonic mnemonic password (envKeypair env) (storage w) of
       Inl e \<Rightarrow> Inl e
     | Inr (account, st) \<Rightarrow>
         Inr (SuccessAccount account,
              w\<lparr>storage := st, decryptedMnemonic := Some mnemonic, isUnlocked := True\<rparr>))"
| "dispatch env (UnlockWallet password) w =
    (if \<not> hasWallet (storage w) then Inr (Failure ''No wallet found'', w)
     else Inr (Success, w\<lparr>isUnlocked := True\<rparr>))"
| "dispatch env LockWallet w =
    Inr (Success, w\<lparr>isUnlocked := False, decryptedMnemonic := None\<rparr>)"
| "dispatch env GetAccounts w = Inr (AccountsResult (getAccounts (storage w)), w)"
| "dispatch env GetActiveAccount w = Inr (AccountResult (getActiveAccount (storage w)), w)"
| "dispatch env (SetActiveAccount i) w =
    (case setActiveAccount i (storage w) of
       Inl e \<Rightarrow> Inl e
     | Inr st \<Rightarrow> Inr (Success, w\<lparr>storage := st\<rparr>))"
| "dispatch env (CreateAccount nm) w =
    (if \<not> isUnlocked w then Inr (Failure ''Wallet is locked'', w)
     else
       (case createAccount nm (envKeypair env) (storage w) of
          Inl e \<Rightarrow> Inl e
        | Inr (account, st) \<Rightarrow> Inr (SuccessAccount account, w\<lparr>storage := st\<rparr>)))"
| "dispatch env (RenameAccount i nm) w =
    (case renameAccount i nm (storage w) of
       Inl e \<Rightarrow> Inl e
     | Inr st \<Rightarrow> Inr (Success, w\<lparr>storage := st\<rparr>))"
| "dispatch env (ExportPrivateKey i password) w =
    (if \<not> isUnlocked w then Inr (Failure ''Wallet is locked'', w)
     else Inr (Failure ''Not implemented'', w))"
| "dispatch env GetNetwork w = Inr (NetworkResult (getActiveNetwork (storage w)), w)"
| "dispatch env (SwitchNetwork nid) w =
    (case setActiveNetwork nid (storage w) of
       Inl e \<Rightarrow> Inl e
     | Inr st \<Rightarrow> Inr (Success, w\<lparr>storage := st\<rparr>))"
| "dispatch env GetConnectedSites w = Inr (SitesResult (getConnectedSites (storage w)), w)"
| "dispatch env (ConnectSite origin nm) w =
    (if \<not> isUnlocked w then Inr (Failure ''Wallet is locked'', w)
     else Inr (Success, w\<lparr>storage := addConnectedSite origin nm (envConnectNow env) (storage w)\<rparr>))"
| "dispatch env (DisconnectSite origin) w =
    Inr (Success, w\<lparr>storage := removeConnectedSite origin (storage w)\<rparr>)"
| "dispatch env (IsConnected origin) w =
    Inr (ConnectedResult (isSiteConnected origin (storage w)), w)"
| "dispatch env (GetBalance a) w = Inr (BalanceResult ''0'', w)"
| "dispatch env (GetTransactions a) w = Inr (TransactionsResult, w)"
| "dispatch env (SendPayment payload password) w = Inr (Failure ''Not implemented'', w)"
| "dispatch env (SendDelegation payload password) w = Inr (Failure ''Not implemented'', w)"
| "dispatch env (SignMessage m password) w = Inr (Failure ''Not implemented'', w)"
| "dispatch env (SignFields fs password) w = Inr (Failure ''Not implemented'', w)"
| "dispatch env (OtherAction a) w = Inr (Failure ''Unknown action'', w)"

text \<open>
  \<open>handleMessage\<close>: the activity timestamp is written first, outside the \<open>try\<close>; an
  error thrown inside the \<open>switch\<close> is caught and becomes a failure response, and what
  was written before the throw stays.
\<close>

definition handleMessage :: "Env \<Rightarrow> BackgroundAction \<Rightarrow> World \<Rightarrow> Response \<times> World" where
  "handleMessage env message w =
    (let w1 = w\<lparr>storage := updateLastActivity (envNow env) (storage w)\<rparr> in
     case dispatch env message w1 of
       Inl err \<Rightarrow> (Failure (errorMessage err), w1)
     | Inr (response, w2) \<Rightarrow> (response, w2))"

text \<open>The objects \<open>handleExternalMessage\<close> returns; \<open>ChainIdResult None\<close> is
  \<open>{chainId: undefined}\<close>.\<close>

datatype ExternalResponse =
    ErrorResult string
  | AddressesResult "string list"
  | ExternalBalance string
  | ChainIdResult "string option"

text \<open>
  \<open>handleExternalMessage\<close> switches on the \<open>action\<close> string of an untyped message. It
  only reads the session and the storage.
\<close>

definition handleExternalMessage :: "string \<Rightarrow> string \<Rightarrow> World \<Rightarrow> ExternalResponse" where
  "handleExternalMessage action origin w =
    (if action = ''mina_requestAccounts'' then
       (if \<not> isSiteConnected origin (storage w) then ErrorResult ''User rejected connection''
        else if \<not> isUnlocked w then ErrorResult ''Wallet is locked''
        else
          (case getActiveAccount (storage w) of
             Some account \<Rightarrow> AddressesResult [address account]
           | None \<Rightarrow> AddressesResult []))
     else if action = ''mina_accounts'' then
       (if \<not> isSiteConnected origin (storage w) \<or> \<not> isUnlocked w then AddressesResult []
        else
          (case getActiveAccount (storage w) of
             Some account \<Rightarrow> AddressesResult [address account]
           | None \<Rightarrow> AddressesResult []))
     else if action = ''mina_getBalance'' then ExternalBalance ''0''
     else if action = ''mina_chainId'' then
       (case getActiveNetwork (storage w) of
          KnownNetwork network \<Rightarrow> ChainIdResult (Some (networkId network))
        | InheritedMember m \<Rightarrow> ChainIdResult None)
     else ErrorResult (''Unknown method: '' @ action))"

text \<open>The \<open>onStartup\<close> listener.\<close>

definition onStartup :: "World \<Rightarrow> World" where
  "onStartup w = w\<lparr>isUnlocked := False, decryptedMnemonic := None\<rparr>"

text \<open>
  The module-level initialisers: a service worker that starts has \<open>isUnlocked = false\<close>
  and \<open>_decryptedMnemonic = null\<close>, over whatever the storage holds.
\<close>

definition initialWorld :: "Storage \<Rightarrow> World" where
  "initialWorld st = \<lparr>isUnlocked = False, decryptedMnemonic = None, storage = st\<rparr>"

text \<open>The events of the service worker, and the states a run of them reaches.\<close>

datatype Event =
    Message Env BackgroundAction
  | ExternalMessage string string
  | Startup

fun step :: "Event \<Rightarrow> World \<Rightarrow> World" where
  "step (Message env message) w = snd (handleMessage env message w)"
| "step (ExternalMessage action origin) w = w"
| "step Startup w = onStartup w"

inductive reachable :: "World \<Rightarrow> bool" where
  reach_start: "reachable (initialWorld st)"
| reach_step: "reachable w \<Longrightarrow> reachable (step e w)"

section \<open>Message payloads\<close>

text \<open>
  The data of a window message is an arbitrary structured-clone value. Only the parts
  the two listeners look at are modelled: property reads, truthiness and object spread.
\<close>

datatype jsvalue =
    JUndefined
  | JNull
  | JBool bool
  | JNumber int
  | JString string
  | JArray "jsvalue list"
  | JObject "(string \<times> jsvalue) list"

text \<open>\<open>v?.key\<close>: a property that is absent, or read from a value with no such property, is
  \<open>undefined\<close>. Only own properties of plain objects are modelled.\<close>

fun getField :: "jsvalue \<Rightarrow> string \<Rightarrow> jsvalue" where
  "getField (JObject kvs) key = (case map_of kvs key of None \<Rightarrow> JUndefined | Some v \<Rightarrow> v)"
| "getField v key = JUndefined"

fun truthy :: "jsvalue \<Rightarrow> bool" where
  "truthy JUndefined = False"
| "truthy JNull = False"
| "truthy (JBool b) = b"
| "truthy (JNumber n) = (n \<noteq> 0)"
| "truthy (JString s) = (s \<noteq> [])"
| "truthy (JArray xs) = True"
| "truthy (JObject kvs) = True"

text \<open>\<open>{...v}\<close>: the own enumerable properties of \<open>v\<close>, in order.\<close>

fun indexed :: "nat \<Rightarrow> jsvalue list \<Rightarrow> (string \<times> jsvalue) list" where
  "indexed n [] = []"
| "indexed n (x # xs) = (digitsOf n, x) # indexed (Suc n) xs"

fun spread :: "jsvalue \<Rightarrow> (string \<times> jsvalue) list" where
  "spread (JObject kvs) = kvs"
| "spread (JArray xs) = indexed 0 xs"
| "spread (JString s) = indexed 0 (map (\<lambda>c. JString [c]) s)"
| "spread v = []"

text \<open>Writing a property of an object under construction: a key that is already there
  keeps its place and takes the new value.\<close>

fun setField :: "string \<Rightarrow> jsvalue \<Rightarrow> (string \<times> jsvalue) list \<Rightarrow> (string \<times> jsvalue) list" where
  "setField key v [] = [(key, v)]"
| "setField key v ((k, x) # kvs) =
    (if k = key then (k, v) # kvs else (k, x) # setField key v kvs)"

definition MINA_PROVIDER_REQUEST :: jsvalue where
  "MINA_PROVIDER_REQUEST = JString ''MINA_PROVIDER_REQUEST''"

definition MINA_PROVIDER_RESPONSE :: jsvalue where
  "MINA_PROVIDER_RESPONSE = JString ''MINA_PROVIDER_RESPONSE''"

definition MINA_PROVIDER_READY :: jsvalue where
  "MINA_PROVIDER_READY = JString ''MINA_PROVIDER_READY''"

section \<open>Relay (content.ts)\<close>

text \<open>
  The order of the own keys of an object: the array indices (canonical decimal strings
  below \<open>2^32 - 1\<close>) in ascending order, then the other keys in the order they were added.
\<close>

definition isDigit :: "char \<Rightarrow> bool" where
  "isDigit c = (48 \<le> (of_char c :: nat) \<and> (of_char c :: nat) \<le> 57)"

definition natOfDigits :: "string \<Rightarrow> nat" where
  "natOfDigits s = foldl (\<lambda>n c. 10 * n + (of_char c - 48)) 0 s"

definition isArrayIndex :: "string \<Rightarrow> bool" where
  "isArrayIndex s =
    (s \<noteq> [] \<and> list_all isDigit s \<and> (s = ''0'' \<or> hd s \<noteq> CHR ''0'')
     \<and> natOfDigits s < 4294967295)"

definition ownKeyOrder :: "(string \<times> jsvalue) list \<Rightarrow> (string \<times> jsvalue) list" where
  "ownKeyOrder kvs =
    sort_key (\<lambda>kv. natOfDigits (fst kv)) (filter (\<lambda>kv. isArrayIndex (fst kv)) kvs)
    @ filter (\<lambda>kv. \<not> isArrayIndex (fst kv)) kvs"

text \<open>
  \<open>{action: message.method, ...message.params}\<close>: a key \<open>action\<close> among the params replaces
  the method.
\<close>

definition forwarded :: "jsvalue \<Rightarrow> jsvalue" where
  "forwarded message =
    JObject (ownKeyOrder
      (foldl (\<lambda>obj (k, v). setField k v obj)
         [(''action'', getField message ''method'')]
         (spread (getField message ''params''))))"

text \<open>
  The window listener of the content script. \<open>chrome.runtime.sendMessage\<close> is a
  parameter: it maps the forwarded object to the reply, or to the error the awaited call
  throws. The result is the list of envelopes the listener posts into the page.
\<close>

definition relayListener :: "(jsvalue \<Rightarrow> error + jsvalue) \<Rightarrow> bool \<Rightarrow> jsvalue \<Rightarrow> jsvalue list" where
  "relayListener sendMessage sourceIsWindow message =
    (if \<not> sourceIsWindow then []
     else if \<not> truthy message \<or> getField message ''type'' \<noteq> MINA_PROVIDER_REQUEST then []
     else
       (case sendMessage (forwarded message) of
          Inr response \<Rightarrow>
            [JObject [(''type'', MINA_PROVIDER_RESPONSE), (''id'', getField message ''id''),
                      (''result'', response)]]
        | Inl err \<Rightarrow>
            [JObject [(''type'', MINA_PROVIDER_RESPONSE), (''id'', getField message ''id''),
                      (''error'', JString (errorMessage err))]]))"

section \<open>Page provider (inpage.ts)\<close>

text \<open>
  A promise returned by \<open>request\<close> is named by a number, in the order of the calls.
  \<open>settlements\<close> lists, in order, the calls made to the \<open>resolve\<close> and \<open>reject\<close> functions
  of these promises and the rejections of a promise by an exception thrown inside
  \<open>request\<close>: \<open>Rejected v\<close> is \<open>reject(new Error(v))\<close>, \<open>Threw e\<close> is the exception \<open>e\<close>.
  \<open>posted\<close> lists the messages posted to the window, \<open>timers\<close> the armed timeouts (when
  due, and the \<open>id\<close> and promise their callback closes over), \<open>emitted\<close> the events passed
  to \<open>emit\<close>.
\<close>

datatype settlement = Resolved jsvalue | Rejected jsvalue | Threw error

text \<open>
  The \<open>params\<close> a page passes to \<open>request\<close>: a value the structured clone algorithm
  accepts, or one it refuses (a function, or a value holding one), with the
  \<open>DataCloneError\<close> that \<open>window.postMessage\<close> throws for it.
\<close>

datatype pageValue = Cloneable jsvalue | NonCloneable error

record MinaProvider =
  pendingRequests :: "string \<rightharpoonup> nat"
  settlements :: "(nat \<times> settlement) list"
  posted :: "jsvalue list"
  timers :: "(nat \<times> string \<times> nat) list"
  emitted :: "string list"
  nextPromise :: nat

definition initialProvider :: MinaProvider where
  "initialProvider =
    \<lparr>pendingRequests = Map.empty, settlements = [], posted = [], timers = [], emitted = [],
     nextPromise = 0\<rparr>"

text \<open>\<open>params ?? {}\<close>\<close>

fun orEmptyObject :: "jsvalue \<Rightarrow> jsvalue" where
  "orEmptyObject JUndefined = JObject []"
| "orEmptyObject JNull = JObject []"
| "orEmptyObject v = v"

text \<open>
  \<open>request\<close>, up to the point where it returns its promise. \<open>uuid\<close> is the outcome of
  \<open>crypto.randomUUID()\<close> (the id, or the error it throws, as where the function does not
  exist) and \<open>now\<close> the time of the call. When \<open>randomUUID\<close> throws, the promise is
  rejected and nothing else happens. Otherwise the id is registered first; when
  \<open>postMessage\<close> then throws, the promise is rejected by the exception, no timer is armed
  and the id stays registered.
\<close>

definition request ::
  "nat \<Rightarrow> error + string \<Rightarrow> string \<Rightarrow> pageValue \<Rightarrow> MinaProvider \<Rightarrow> MinaProvider" where
  "request now uuid method params P =
    (case uuid of
       Inl e \<Rightarrow>
         P\<lparr>settlements := settlements P @ [(nextPromise P, Threw e)],
           nextPromise := Suc (nextPromise P)\<rparr>
     | Inr rid \<Rightarrow>
         (case params of
            NonCloneable e \<Rightarrow>
              P\<lparr>pendingRequests := (pendingRequests P)(rid \<mapsto> nextPromise P),
                settlements := settlements P @ [(nextPromise P, Threw e)],
                nextPromise := Suc (nextPromise P)\<rparr>
          | Cloneable v \<Rightarrow>
              P\<lparr>pendingRequests := (pendingRequests P)(rid \<mapsto> nextPromise P),
                posted := posted P @
                  [JObject [(''type'', MINA_PROVIDER_REQUEST), (''id'', JString rid),
                            (''method'', JString method), (''params'', orEmptyObject v)]],
                timers := timers P @ [(now + 60000, rid, nextPromise P)],
                nextPromise := Suc (nextPromise P)\<rparr>))"

text \<open>The callback given to \<open>setTimeout\<close> by the call that created promise \<open>k\<close>.\<close>

definition timeoutCallback :: "string \<Rightarrow> nat \<Rightarrow> MinaProvider \<Rightarrow> MinaProvider" where
  "timeoutCallback rid k P =
    (if pendingRequests P rid \<noteq> None then
       P\<lparr>pendingRequests := (pendingRequests P)(rid := None),
         settlements := settlements P @ [(k, Rejected (JString ''Request timeout''))]\<rparr>
     else P)"

text \<open>\<open>pendingRequests.get(message.id)\<close>: the keys of the map are strings.\<close>

fun pendingGet :: "MinaProvider \<Rightarrow> jsvalue \<Rightarrow> (string \<times> nat) option" where
  "pendingGet P (JString rid) = (case pendingRequests P rid of None \<Rightarrow> None | Some k \<Rightarrow> Some (rid, k))"
| "pendingGet P v = None"

text \<open>The window listener installed by \<open>setupMessageListener\<close>.\<close>

definition messageListener :: "bool \<Rightarrow> jsvalue \<Rightarrow> MinaProvider \<Rightarrow> MinaProvider" where
  "messageListener sourceIsWindow message P =
    (if \<not> sourceIsWindow then P
     else if getField message ''type'' = MINA_PROVIDER_RESPONSE then
       (case pendingGet P (getField message ''id'') of
          Some (rid, k) \<Rightarrow>
            P\<lparr>pendingRequests := (pendingRequests P)(rid := None),
              settlements := settlements P @
                [(k, if truthy (getField message ''error'')
                     then Rejected (getField message ''error'')
                     else Resolved (getField message ''result''))]\<rparr>
        | None \<Rightarrow> P)
     else if getField message ''type'' = MINA_PROVIDER_READY then
       P\<lparr>emitted := emitted P @ [''ready'']\<rparr>
     else P)"

text \<open>
  The page's event loop: a call of \<open>request\<close>, a message delivered to the window, or
  the clock reaching \<open>now\<close>, at which every armed timer that is due runs its callback.
\<close>

datatype PageEvent =
    Request nat "error + string" string pageValue
  | Deliver bool jsvalue
  | Elapse nat

definition runTimers :: "nat \<Rightarrow> MinaProvider \<Rightarrow> MinaProvider" where
  "runTimers now P =
    foldl (\<lambda>Q (d, rid, k). timeoutCallback rid k Q)
      (P\<lparr>timers := filter (\<lambda>(d, rid, k). now < d) (timers P)\<rparr>)
      (filter (\<lambda>(d, rid, k). d \<le> now) (timers P))"

fun pageStep :: "PageEvent \<Rightarrow> MinaProvider \<Rightarrow> MinaProvider" where
  "pageStep (Request now uuid method params) P = request now uuid method params P"
| "pageStep (Deliver sourceIsWindow message) P = messageListener sourceIsWindow message P"
| "pageStep (Elapse now) P = runTimers now P"

definition run :: "PageEvent list \<Rightarrow> MinaProvider \<Rightarrow> MinaProvider" where
  "run es P = foldl (\<lambda>Q e. pageStep e Q) P es"



section \<open>From the page to the dispatcher (content.ts, background.ts)\<close>

text \<open>
  The relay sends the forwarded object with \<open>chrome.runtime.sendMessage\<close>, which raises
  \<open>chrome.runtime.onMessage\<close> in the service worker: the listener there calls
  \<open>handleMessage\<close> and answers with its result. \<open>handleMessage\<close> is typed on
  \<open>BackgroundAction\<close>; \<open>asBackgroundAction\<close> is the typed view of an object, by its
  \<open>action\<close> tag and the fields of that tag. An object that has none of these shapes (a
  field missing or of another type, an \<open>action\<close> that is not a string) has no typed view,
  and what the handler does with it is outside the model.
\<close>

definition strField :: "jsvalue \<Rightarrow> string \<Rightarrow> string option" where
  "strField m key = (case getField m key of JString x \<Rightarrow> Some x | _ \<Rightarrow> None)"

definition numField :: "jsvalue \<Rightarrow> string \<Rightarrow> int option" where
  "numField m key = (case getField m key of JNumber n \<Rightarrow> Some n | _ \<Rightarrow> None)"

text \<open>An optional field: \<open>Some None\<close> when it is absent, \<open>None\<close> when it has another type.\<close>

definition optStrField :: "jsvalue \<Rightarrow> string \<Rightarrow> string option option" where
  "optStrField m key =
    (case getField m key of
       JUndefined \<Rightarrow> Some None | JNull \<Rightarrow> Some None | JString x \<Rightarrow> Some (Some x) | _ \<Rightarrow> None)"

definition optNumField :: "jsvalue \<Rightarrow> string \<Rightarrow> int option option" where
  "optNumField m key =
    (case getField m key of
       JUndefined \<Rightarrow> Some None | JNull \<Rightarrow> Some None | JNumber n \<Rightarrow> Some (Some n) | _ \<Rightarrow> None)"

fun asStrings :: "jsvalue list \<Rightarrow> string list option" where
  "asStrings [] = Some []"
| "asStrings (JString x # vs) = map_option ((#) x) (asStrings vs)"
| "asStrings (v # vs) = None"

definition strListField :: "jsvalue \<Rightarrow> string \<Rightarrow> string list option" where
  "strListField m key = (case getField m key of JArray vs \<Rightarrow> asStrings vs | _ \<Rightarrow> None)"

definition asPaymentPayload :: "jsvalue \<Rightarrow> PaymentPayload option" where
  "asPaymentPayload v =
    Option.bind (strField v ''from'') (\<lambda>sender.
    Option.bind (strField v ''to'') (\<lambda>receiver.
    Option.bind (strField v ''amount'') (\<lambda>amount.
    Option.bind (strField v ''fee'') (\<lambda>fee.
    Option.bind (numField v ''nonce'') (\<lambda>nonce.
    Option.bind (optStrField v ''memo'') (\<lambda>memo.
    Option.bind (optNumField v ''validUntil'') (\<lambda>validUntil.
      Some (PaymentPayload sender receiver amount fee nonce memo validUntil))))))))"

definition asDelegationPayload :: "jsvalue \<Rightarrow> DelegationPayload option" where
  "asDelegationPayload v =
    Option.bind (strField v ''from'') (\<lambda>sender.
    Option.bind (strField v ''to'') (\<lambda>receiver.
    Option.bind (strField v ''fee'') (\<lambda>fee.
    Option.bind (numField v ''nonce'') (\<lambda>nonce.
      Some (DelegationPayload sender receiver fee nonce)))))"

definition asBackgroundAction :: "jsvalue \<Rightarrow> BackgroundAction option" where
  "asBackgroundAction m =
    (case getField m ''action'' of
       JString a \<Rightarrow>
         (if a = ''createWallet'' then
            Option.bind (strField m ''mnemonic'') (\<lambda>mnemonic.
            Option.bind (strField m ''password'') (\<lambda>password.
              Some (CreateWallet mnemonic password)))
          else if a = ''importWallet'' then
            Option.bind (strField m ''mnemonic'') (\<lambda>mnemonic.
            Option.bind (strField m ''password'') (\<lambda>password.
              Some (ImportWallet mnemonic password)))
          else if a = ''unlockWallet'' then
            map_option UnlockWallet (strField m ''password'')
          else if a = ''lockWallet'' then Some LockWallet
          else if a = ''isLocked'' then Some IsLocked
          else if a = ''hasWallet'' then Some HasWallet
          else if a = ''getAccounts'' then Some GetAccounts
          else if a = ''createAccount'' then map_option CreateAccount (optStrField m ''name'')
          else if a = ''renameAccount'' then
            Option.bind (numField m ''index'') (\<lambda>i.
            Option.bind (strField m ''name'') (\<lambda>nm. Some (RenameAccount i nm)))
          else if a = ''setActiveAccount'' then map_option SetActiveAccount (numField m ''index'')
          else if a = ''getActiveAccount'' then Some GetActiveAccount
          else if a = ''exportPrivateKey'' then
            Option.bind (numField m ''index'') (\<lambda>i.
            Option.bind (strField m ''password'') (\<lambda>password. Some (ExportPrivateKey i password)))
          else if a = ''getBalance'' then map_option GetBalance (strField m ''address'')
          else if a = ''getTransactions'' then map_option GetTransactions (strField m ''address'')
          else if a = ''sendPayment'' then
            Option.bind (asPaymentPayload (getField m ''payload'')) (\<lambda>payload.
            Option.bind (strField m ''password'') (\<lambda>password. Some (SendPayment payload password)))
          else if a = ''sendDelegation'' then
            Option.bind (asDelegationPayload (getField m ''payload'')) (\<lambda>payload.
            Option.bind (strField m ''password'') (\<lambda>password.
              Some (SendDelegation payload password)))
          else if a = ''signMessage'' then
            Option.bind (strField m ''message'') (\<lambda>msg.
            Option.bind (strField m ''password'') (\<lambda>password. Some (SignMessage msg password)))
          else if a = ''signFields'' then
            Option.bind (strListField m ''fields'') (\<lambda>fs.
            Option.bind (strField m ''password'') (\<lambda>password. Some (SignFields fs password)))
          else if a = ''getNetwork'' then Some GetNetwork
          else if a = ''switchNetwork'' then map_option SwitchNetwork (strField m ''networkId'')
          else if a = ''getConnectedSites'' then Some GetConnectedSites
          else if a = ''connectSite'' then
            Option.bind (strField m ''origin'') (\<lambda>origin.
            Option.bind (strField m ''name'') (\<lambda>nm. Some (ConnectSite origin nm)))
          else if a = ''disconnectSite'' then map_option DisconnectSite (strField m ''origin'')
          else if a = ''isConnected'' then map_option IsConnected (strField m ''origin'')
          else Some (OtherAction a))
     | _ \<Rightarrow> None)"

text \<open>The objects of \<open>Response\<close>, as the values the reply carries.\<close>

definition encodeAccount :: "Account \<Rightarrow> jsvalue" where
  "encodeAccount a =
    JObject [(''index'', JNumber (index a)), (''name'', JString (name a)),
             (''address'', JString (address a)), (''publicKeyHex'', JString (publicKeyHex a))]"

definition encodeSite :: "ConnectedSite \<Rightarrow> jsvalue" where
  "encodeSite c =
    JObject [(''origin'', JString (siteOrigin c)), (''name'', JString (siteName c)),
             (''connectedAt'', JNumber (int (connectedAt c)))]"

text \<open>A reply is sent as JSON: an inherited function is dropped, the prototype object is
  an empty object.\<close>

fun encodeNetwork :: "NetworkValue \<Rightarrow> (string \<times> jsvalue) list" where
  "encodeNetwork (KnownNetwork n) =
    [(''network'',
      JObject [(''id'', JString (networkId n)), (''name'', JString (networkName n)),
               (''graphqlUrl'', JString (graphqlUrl n)),
               (''explorerUrl'', JString (explorerUrl n))])]"
| "encodeNetwork (InheritedMember m) =
    (if m = ''__proto__'' then [(''network'', JObject [])] else [])"

fun encodeResponse :: "Response \<Rightarrow> jsvalue" where
  "encodeResponse (HasWalletResult b) = JObject [(''hasWallet'', JBool b)]"
| "encodeResponse (IsLockedResult b) = JObject [(''isLocked'', JBool b)]"
| "encodeResponse (SuccessAccount a) =
    JObject [(''success'', JBool True), (''account'', encodeAccount a)]"
| "encodeResponse Success = JObject [(''success'', JBool True)]"
| "encodeResponse (Failure e) = JObject [(''success'', JBool False), (''error'', JString e)]"
| "encodeResponse (AccountsResult as) = JObject [(''accounts'', JArray (map encodeAccount as))]"
| "encodeResponse (AccountResult None) = JObject [(''account'', JNull)]"
| "encodeResponse (AccountResult (Some a)) = JObject [(''account'', encodeAccount a)]"
| "encodeResponse (NetworkResult n) = JObject (encodeNetwork n)"
| "encodeResponse (SitesResult cs) = JObject [(''sites'', JArray (map encodeSite cs))]"
| "encodeResponse (ConnectedResult b) = JObject [(''connected'', JBool b)]"
| "encodeResponse (BalanceResult b) = JObject [(''balance'', JString b)]"
| "encodeResponse TransactionsResult = JObject [(''transactions'', JArray [])]"

text \<open>The \<open>onMessage\<close> listener: the reply it sends and the world it leaves.\<close>

definition onMessageListener :: "Env \<Rightarrow> jsvalue \<Rightarrow> World \<Rightarrow> (jsvalue \<times> World) option" where
  "onMessageListener env message w =
    (case asBackgroundAction message of
       None \<Rightarrow> None
     | Some action \<Rightarrow>
         (case handleMessage env action w of (response, w') \<Rightarrow> Some (encodeResponse response, w')))"

text \<open>
  A message posted in the page's window, taken by the relay, answered by the service
  worker: the envelopes the relay posts back, and the world afterwards. The sender's
  origin is no input: \<open>handleMessage\<close> ignores its \<open>_sender\<close>.
\<close>

definition relayedRequest :: "Env \<Rightarrow> jsvalue \<Rightarrow> World \<Rightarrow> (jsvalue list \<times> World) option" where
  "relayedRequest env message w =
    (if \<not> truthy message \<or> getField message ''type'' \<noteq> MINA_PROVIDER_REQUEST then Some ([], w)
     else
       (case onMessageListener env (forwarded message) w of
          None \<Rightarrow> None
        | Some (reply, w') \<Rightarrow> Some (relayListener (\<lambda>m. Inr reply) True message, w')))"

section \<open>Vocabulary of the statements\<close>

text \<open>
  The mutating operations of accounts.ts as one type, so that a sequence of calls can be
  run. A call that throws has written nothing: the storage stays as it was.
\<close>

datatype WalletOp =
    OpCreateWallet string string "error + Keypair"
  | OpCreateAccount "string option" "error + Keypair"
  | OpImportAccount string "string option"
  | OpSetActive int
  | OpRename int string
  | OpDelete int

fun applyWalletOp ::
  "(string \<Rightarrow> error + Keypair) \<Rightarrow> (string \<Rightarrow> error + Keypair) \<Rightarrow> WalletOp \<Rightarrow> Storage \<Rightarrow> Storage" where
  "applyWalletOp hexKp b58Kp (OpCreateWallet mnemonic password kp) st =
    (case createWalletFromMnemonic mnemonic password kp st of Inl e \<Rightarrow> st | Inr (a, st') \<Rightarrow> st')"
| "applyWalletOp hexKp b58Kp (OpCreateAccount nm kp) st =
    (case createAccount nm kp st of Inl e \<Rightarrow> st | Inr (a, st') \<Rightarrow> st')"
| "applyWalletOp hexKp b58Kp (OpImportAccount key nm) st =
    (case importAccountFromPrivateKey hexKp b58Kp key nm st of Inl e \<Rightarrow> st | Inr (a, st') \<Rightarrow> st')"
| "applyWalletOp hexKp b58Kp (OpSetActive i) st =
    (case setActiveAccount i st of Inl e \<Rightarrow> st | Inr st' \<Rightarrow> st')"
| "applyWalletOp hexKp b58Kp (OpRename i nm) st =
    (case renameAccount i nm st of Inl e \<Rightarrow> st | Inr st' \<Rightarrow> st')"
| "applyWalletOp hexKp b58Kp (OpDelete i) st =
    (case deleteAccount i st of Inl e \<Rightarrow> st | Inr st' \<Rightarrow> st')"

definition applyWalletOps ::
  "(string \<Rightarrow> error + Keypair) \<Rightarrow> (string \<Rightarrow> error + Keypair) \<Rightarrow> WalletOp list \<Rightarrow> Storage \<Rightarrow> Storage" where
  "applyWalletOps hexKp b58Kp ops st = foldl (\<lambda>s op. applyWalletOp hexKp b58Kp op s) st ops"


text \<open>
  The active-account pointer read as \<open>setActiveAccount\<close>, \<open>createAccount\<close> and
  \<open>deleteAccount\<close> write it: the \<open>index\<close> of an account of the list.
\<close>

definition activePointerValid :: "EncryptedWallet \<Rightarrow> bool" where
  "activePointerValid w =
    (accounts w \<noteq> [] \<and> list_ex (\<lambda>a. index a = activeAccountIndex w) (accounts w))"

definition walletSound :: "Storage \<Rightarrow> bool" where
  "walletSound st = (case getEncryptedWallet st of None \<Rightarrow> True | Some w \<Rightarrow> activePointerValid w)"

text \<open>The actions whose branch of \<open>handleMessage\<close> tests \<open>isUnlocked\<close> first.\<close>

fun lockChecked :: "BackgroundAction \<Rightarrow> bool" where
  "lockChecked (CreateAccount nm) = True"
| "lockChecked (ExportPrivateKey i password) = True"
| "lockChecked (ConnectSite origin nm) = True"
| "lockChecked message = False"

text \<open>The placeholder actions for sending and signing.\<close>

fun signingPlaceholder :: "BackgroundAction \<Rightarrow> bool" where
  "signingPlaceholder (SendPayment payload password) = True"
| "signingPlaceholder (SendDelegation payload password) = True"
| "signingPlaceholder (SignMessage m password) = True"
| "signingPlaceholder (SignFields fs password) = True"
| "signingPlaceholder message = False"

text \<open>
  The gated set as the specification lists it: account creation, site-connection
  approval, private-key export, transaction signing, message and field signing.
\<close>

definition specGated :: "BackgroundAction \<Rightarrow> bool" where
  "specGated message = (lockChecked message \<or> signingPlaceholder message)"

text \<open>Concrete inputs for the examples.\<close>

definition emptyStorage :: Storage where
  "emptyStorage =
    \<lparr>ENCRYPTED_WALLET = None, ACTIVE_NETWORK = None, CONNECTED_SITES = None,
     LAST_ACTIVITY = None\<rparr>"

definition exampleKeypair :: Keypair where
  "exampleKeypair =
    \<lparr>kpAddress = ''B62qexample'', kpPublicKeyHex = ''0a0b'', kpSecretKeyHex = ''0c0d''\<rparr>"

definition exampleEnv :: Env where
  "exampleEnv = \<lparr>envNow = 1000, envConnectNow = 1001, envKeypair = Inr exampleKeypair\<rparr>"

definition otherKeypair :: Keypair where
  "otherKeypair =
    \<lparr>kpAddress = ''B62qother'', kpPublicKeyHex = ''0e0f'', kpSecretKeyHex = ''0102''\<rparr>"

definition exampleWalletStorage :: Storage where
  "exampleWalletStorage =
    applyWalletOp (\<lambda>k. Inr otherKeypair) (\<lambda>k. Inr otherKeypair)
      (OpCreateWallet ''abandon'' ''right'' (Inr exampleKeypair)) emptyStorage"

definition twoAccountStorage :: Storage where
  "twoAccountStorage =
    applyWalletOp (\<lambda>k. Inr otherKeypair) (\<lambda>k. Inr otherKeypair)
      (OpCreateAccount (Some ''second'') (Inr otherKeypair)) exampleWalletStorage"

text \<open>
  Overlapping calls. Handlers are started as messages arrive and are not serialised, so a
  second account-creating call can read the wallet before the first has written it. A
  call is two events: \<open>Begins\<close>, when its read of the wallet returns, and \<open>Ends\<close>, when it
  has computed its result from the wallet it read and writes (or throws). \<open>ilReads\<close> holds
  the calls that have read and not yet ended, with the wallet each has read;
  \<open>ilReturned\<close> holds what the ended calls returned or threw.
\<close>

datatype AccountCall =
    CallCreateAccount "string option" "error + Keypair"
  | CallImportAccount string "string option"

fun callAfterRead ::
  "(string \<Rightarrow> error + Keypair) \<Rightarrow> (string \<Rightarrow> error + Keypair) \<Rightarrow> AccountCall \<Rightarrow>
   EncryptedWallet option \<Rightarrow> error + (Account \<times> EncryptedWallet)" where
  "callAfterRead hexKp b58Kp (CallCreateAccount nm kp) wallet = createAccountAfterRead nm kp wallet"
| "callAfterRead hexKp b58Kp (CallImportAccount key nm) wallet =
    importAccountAfterRead hexKp b58Kp key nm wallet"

record Interleaving =
  ilStorage :: Storage
  ilReads :: "(nat \<times> AccountCall \<times> EncryptedWallet option) list"
  ilReturned :: "(nat \<times> (error + Account)) list"

datatype CallEvent = Begins nat AccountCall | Ends nat

fun callStep ::
  "(string \<Rightarrow> error + Keypair) \<Rightarrow> (string \<Rightarrow> error + Keypair) \<Rightarrow> CallEvent \<Rightarrow>
   Interleaving \<Rightarrow> Interleaving" where
  "callStep hexKp b58Kp (Begins c call) S =
    S\<lparr>ilReads := ilReads S @ [(c, call, getEncryptedWallet (ilStorage S))]\<rparr>"
| "callStep hexKp b58Kp (Ends c) S =
    (case find (\<lambda>r. fst r = c) (ilReads S) of
       None \<Rightarrow> S
     | Some (c', call, wallet) \<Rightarrow>
         (case callAfterRead hexKp b58Kp call wallet of
            Inl e \<Rightarrow>
              S\<lparr>ilReads := filter (\<lambda>r. fst r \<noteq> c) (ilReads S),
                ilReturned := ilReturned S @ [(c, Inl e)]\<rparr>
          | Inr (account, wallet') \<Rightarrow>
              S\<lparr>ilStorage := setEncryptedWallet wallet' (ilStorage S),
                ilReads := filter (\<lambda>r. fst r \<noteq> c) (ilReads S),
                ilReturned := ilReturned S @ [(c, Inr account)]\<rparr>))"


definition idle :: "Storage \<Rightarrow> Interleaving" where
  "idle st = \<lparr>ilStorage = st, ilReads = [], ilReturned = []\<rparr>"




definition exampleRequest :: jsvalue where
  "exampleRequest =
    JObject [(''type'', MINA_PROVIDER_REQUEST), (''id'', JString ''u1''),
             (''method'', JString ''mina_accounts''), (''params'', JObject [])]"

text \<open>A request for \<open>mina_requestAccounts\<close> whose params carry a key \<open>action\<close>.\<close>

definition overridingRequest :: jsvalue where
  "overridingRequest =
    JObject [(''type'', MINA_PROVIDER_REQUEST), (''id'', JString ''u1''),
             (''method'', JString ''mina_requestAccounts''),
             (''params'', JObject [(''action'', JString ''getAccounts'')])]"

text \<open>A service worker that has just started over a storage holding a wallet with one
  account and no connected site.\<close>

definition lockedWalletWorld :: World where
  "lockedWalletWorld = initialWorld exampleWalletStorage"

definition exampleResponse :: jsvalue where
  "exampleResponse =
    JObject [(''type'', MINA_PROVIDER_RESPONSE), (''id'', JString ''u1''),
             (''result'', JString ''ok'')]"

definition staleResponse :: jsvalue where
  "staleResponse =
    JObject [(''type'', MINA_PROVIDER_RESPONSE), (''id'', JString ''u9''),
             (''result'', JString ''late'')]"

definition exampleProvider :: MinaProvider where
  "exampleProvider =
    request 10 (Inr ''u1'') ''mina_accounts'' (Cloneable JUndefined)
      (run [Request 5 (Inr ''u0'') ''mina_chainId'' (Cloneable JUndefined)] initialProvider)"




section \<open>Session state machine\<close>

text \<open>
  The session invariant, one handler at a time: a world in which a locked session holds
  no mnemonic is taken to such a world by every branch of the \<open>switch\<close>.
\<close>

lemma dispatch_session:
  assumes "dispatch env m w = Inr (r, w')"
    and "\<not> isUnlocked w \<longrightarrow> decryptedMnemonic w = None"
  shows "\<not> isUnlocked w' \<longrightarrow> decryptedMnemonic w' = None"
  using assms by (cases m) (auto split: if_splits sum.splits prod.splits)

lemma handleMessage_session:
  assumes "\<not> isUnlocked w \<longrightarrow> decryptedMnemonic w = None"
  shows "\<not> isUnlocked (snd (handleMessage env m w))
         \<longrightarrow> decryptedMnemonic (snd (handleMessage env m w)) = None"
proof (cases "dispatch env m (w\<lparr>storage := updateLastActivity (envNow env) (storage w)\<rparr>)")
  case (Inl e)
  then show ?thesis using assms by (simp add: handleMessage_def)
next
  case (Inr p)
  obtain r w' where p: "p = (r, w')" by (cases p)
  from dispatch_session [OF Inr [unfolded p]] assms
  show ?thesis using Inr p by (simp add: handleMessage_def)
qed

lemma step_session:
  assumes "\<not> isUnlocked w \<longrightarrow> decryptedMnemonic w = None"
  shows "\<not> isUnlocked (step e w) \<longrightarrow> decryptedMnemonic (step e w) = None"
  using assms handleMessage_session [OF assms] by (cases e) (auto simp: onStartup_def)

lemma reachable_session:
  "reachable w \<Longrightarrow> \<not> isUnlocked w \<longrightarrow> decryptedMnemonic w = None"
proof (induction rule: reachable.induct)
  case (reach_start st)
  show ?case by (simp add: initialWorld_def)
next
  case (reach_step w e)
  from reach_step.IH show ?case by (rule step_session)
qed

text \<open>
  C1. The claim: \<open>unlockWallet\<close> unlocks only when a wallet exists and the password
  verifies. The handler never looks at the password. Below, a wallet is created with
  the password "right" and locked; \<open>unlockWallet\<close> with the password "wrong" then
  answers \<open>{success: true}\<close> and the session is unlocked, with no mnemonic loaded.
\<close>

theorem unlockWallet_wrong_password_unlocks:
  "(let w1 = snd (handleMessage exampleEnv (CreateWallet ''abandon'' ''right'')
                    (initialWorld emptyStorage));
        w2 = snd (handleMessage exampleEnv LockWallet w1);
        r = handleMessage exampleEnv (UnlockWallet ''wrong'') w2
    in \<not> isUnlocked w2 \<and> fst r = Success \<and> isUnlocked (snd r)
       \<and> decryptedMnemonic (snd r) = None)"
  by (simp add: handleMessage_def initialWorld_def emptyStorage_def exampleEnv_def
      createWalletFromMnemonic_def setEncryptedWallet_def updateLastActivity_def hasWallet_def
      getEncryptedWallet_def Let_def)

text \<open>What the handler does on every input: the outcome depends on the storage alone.\<close>

lemma unlockWallet_any_password:
  "hasWallet (storage w) \<Longrightarrow>
   handleMessage env (UnlockWallet password) w =
     (Success,
      w\<lparr>storage := updateLastActivity (envNow env) (storage w), isUnlocked := True\<rparr>)"
  by (auto simp add: handleMessage_def hasWallet_def updateLastActivity_def
      getEncryptedWallet_def Let_def)

lemma unlockWallet_no_wallet:
  "\<not> hasWallet (storage w) \<Longrightarrow>
   handleMessage env (UnlockWallet password) w =
     (Failure ''No wallet found'',
      w\<lparr>storage := updateLastActivity (envNow env) (storage w)\<rparr>)"
  by (auto simp add: handleMessage_def hasWallet_def updateLastActivity_def
      getEncryptedWallet_def Let_def)

text \<open>
  C2. In every state the service worker reaches (from its start, by any sequence of
  internal messages, external messages and startup events), a locked session holds no
  decrypted mnemonic. Every further event keeps this; \<open>lockWallet\<close> and the startup
  listener each leave the session locked with the mnemonic cleared.
\<close>

theorem locked_session_holds_no_mnemonic:
  assumes "reachable w"
  shows "(\<not> isUnlocked w \<longrightarrow> decryptedMnemonic w = None)
    \<and> (\<forall>e. \<not> isUnlocked (step e w) \<longrightarrow> decryptedMnemonic (step e w) = None)
    \<and> (\<forall>env. \<not> isUnlocked (snd (handleMessage env LockWallet w))
              \<and> decryptedMnemonic (snd (handleMessage env LockWallet w)) = None)
    \<and> \<not> isUnlocked (step Startup w) \<and> decryptedMnemonic (step Startup w) = None"
  using reachable_session [OF assms] step_session [of w]
  by (auto simp: handleMessage_def onStartup_def)

theorem locked_session_holds_no_mnemonic_witness:
  "reachable (step (Message exampleEnv LockWallet)
       (step (Message exampleEnv (CreateWallet ''abandon'' ''right'')) (initialWorld emptyStorage)))
   \<and> \<not> isUnlocked (step (Message exampleEnv LockWallet)
       (step (Message exampleEnv (CreateWallet ''abandon'' ''right'')) (initialWorld emptyStorage)))
   \<and> decryptedMnemonic (step (Message exampleEnv LockWallet)
       (step (Message exampleEnv (CreateWallet ''abandon'' ''right'')) (initialWorld emptyStorage)))
       = None"
proof -
  have r: "reachable (step (Message exampleEnv LockWallet)
       (step (Message exampleEnv (CreateWallet ''abandon'' ''right'')) (initialWorld emptyStorage)))"
    by (intro reachable.intros)
  have l: "\<not> isUnlocked (step (Message exampleEnv LockWallet)
       (step (Message exampleEnv (CreateWallet ''abandon'' ''right'')) (initialWorld emptyStorage)))"
    by (simp add: handleMessage_def)
  from locked_session_holds_no_mnemonic [OF r] r l show ?thesis by blast
qed

text \<open>
  What the \<open>switch\<close> does with the actions the specification gates on an unlocked
  session. \<open>createAccount\<close>, \<open>connectSite\<close> and \<open>exportPrivateKey\<close> test \<open>isUnlocked\<close>
  first and answer "Wallet is locked" to a locked session. \<open>sendPayment\<close>,
  \<open>sendDelegation\<close>, \<open>signMessage\<close> and \<open>signFields\<close> have no such test: they answer
  "Not implemented" in every session state. Each leaves all but the activity timestamp
  as it was.
\<close>

lemma handleMessage_lock_test:
  "(lockChecked m \<and> \<not> isUnlocked w \<longrightarrow>
      handleMessage env m w =
        (Failure ''Wallet is locked'',
         w\<lparr>storage := updateLastActivity (envNow env) (storage w)\<rparr>))
   \<and> (signingPlaceholder m \<longrightarrow>
      handleMessage env m w =
        (Failure ''Not implemented'',
         w\<lparr>storage := updateLastActivity (envNow env) (storage w)\<rparr>))"
  by (cases m) (auto simp: handleMessage_def)

text \<open>
  C3. The claim: every operation of the gated set (account creation, site-connection
  approval, private-key export, transaction signing, message and field signing), sent
  while the session is locked, fails with "Wallet is locked" and with no other error.
  Below, a wallet exists and the session is locked. \<open>signMessage\<close>, \<open>signFields\<close>,
  \<open>sendPayment\<close> and \<open>sendDelegation\<close> each answer "Not implemented", an error that does
  not name the lock, while \<open>exportPrivateKey\<close>, the handler next to them in the same
  \<open>switch\<close>, tests the lock first and answers "Wallet is locked".
\<close>

theorem placeholders_skip_lock_test:
  "\<not> isUnlocked lockedWalletWorld
   \<and> specGated (SignMessage ''hello'' ''pw'')
   \<and> fst (handleMessage exampleEnv (SignMessage ''hello'' ''pw'') lockedWalletWorld)
       = Failure ''Not implemented''
   \<and> fst (handleMessage exampleEnv (SignFields [''1''] ''pw'') lockedWalletWorld)
       = Failure ''Not implemented''
   \<and> fst (handleMessage exampleEnv
        (SendPayment (PaymentPayload ''B62qexample'' ''B62qother'' ''1'' ''1'' 0 None None) ''pw'')
        lockedWalletWorld) = Failure ''Not implemented''
   \<and> fst (handleMessage exampleEnv
        (SendDelegation (DelegationPayload ''B62qexample'' ''B62qother'' ''1'' 0) ''pw'')
        lockedWalletWorld) = Failure ''Not implemented''
   \<and> fst (handleMessage exampleEnv (ExportPrivateKey 0 ''pw'') lockedWalletWorld)
       = Failure ''Wallet is locked''"
  by (simp add: specGated_def lockedWalletWorld_def initialWorld_def handleMessage_def)

section \<open>The example wallet\<close>

text \<open>The storage after \<open>createWallet\<close>: one account of index 0, no connected site.\<close>

lemma exampleWalletStorage_eval:
  "getEncryptedWallet exampleWalletStorage = Some
     \<lparr>encryptedMnemonic = ''abandon'', salt = ''placeholder-salt'', iv = ''placeholder-iv'',
      accounts = [\<lparr>index = 0, name = ''Account 1'', address = ''B62qexample'',
                   publicKeyHex = ''0a0b''\<rparr>],
      activeAccountIndex = 0\<rparr>"
  by (simp add: exampleWalletStorage_def emptyStorage_def createWalletFromMnemonic_def
      setEncryptedWallet_def getEncryptedWallet_def exampleKeypair_def Let_def)


lemma exampleWalletStorage_sites: "getConnectedSites exampleWalletStorage = []"
  by (simp add: exampleWalletStorage_def emptyStorage_def createWalletFromMnemonic_def
      setEncryptedWallet_def getConnectedSites_def exampleKeypair_def Let_def)

lemma lockedWalletWorld_session:
  "\<not> isUnlocked lockedWalletWorld" "getConnectedSites (storage lockedWalletWorld) = []"
  using exampleWalletStorage_sites by (simp_all add: lockedWalletWorld_def initialWorld_def)

section \<open>External request dispatcher\<close>

text \<open>
  \<open>handleExternalMessage\<close>, the listener of \<open>onMessageExternal\<close>: for an origin with no
  ConnectedSite entry, \<open>mina_requestAccounts\<close> answers with the error "User rejected
  connection" and \<open>mina_accounts\<close> with the empty list, in every session state.
\<close>

lemma handleExternalMessage_requestAccounts_unconnected:
  assumes "origin \<notin> set (map siteOrigin (getConnectedSites (storage w)))"
  shows "handleExternalMessage ''mina_requestAccounts'' origin w
           = ErrorResult ''User rejected connection''"
  using assms by (auto simp: handleExternalMessage_def isSiteConnected_def list_ex_iff)

lemma handleExternalMessage_accounts_unconnected:
  assumes "origin \<notin> set (map siteOrigin (getConnectedSites (storage w)))"
  shows "handleExternalMessage ''mina_accounts'' origin w = AddressesResult []"
  using assms by (auto simp: handleExternalMessage_def isSiteConnected_def list_ex_iff)

text \<open>
  A request of a page does not arrive there. The provider posts it to the window, the
  content script forwards \<open>{action: message.method, ...message.params}\<close> with
  \<open>chrome.runtime.sendMessage\<close>, and the message is received by the listener of
  \<open>onMessage\<close>, that is by \<open>handleMessage\<close>. This handler is the one the popup talks to:
  it does not look at the sender, and its \<open>switch\<close> has no case for the provider
  methods.
\<close>

lemma handleMessage_getAccounts_any_sender:
  "fst (handleMessage env GetAccounts w) = AccountsResult (getAccounts (storage w))"
  by (simp add: handleMessage_def getAccounts_def updateLastActivity_def getEncryptedWallet_def)

lemma handleMessage_provider_method_unknown:
  "fst (handleMessage env (OtherAction a) w) = Failure ''Unknown action''"
  by (simp add: handleMessage_def)

text \<open>The two requests of the examples, as the content script forwards them.\<close>

lemma forwarded_overriding: "forwarded overridingRequest = JObject [(''action'', JString ''getAccounts'')]"
  by (simp add: forwarded_def overridingRequest_def ownKeyOrder_def isArrayIndex_def isDigit_def)

lemma forwarded_example: "forwarded exampleRequest = JObject [(''action'', JString ''mina_accounts'')]"
  by (simp add: forwarded_def exampleRequest_def ownKeyOrder_def isArrayIndex_def isDigit_def)

lemma getAccounts_typed: "asBackgroundAction (JObject [(''action'', JString ''getAccounts'')]) = Some GetAccounts"
  by (simp add: asBackgroundAction_def)

lemma mina_accounts_typed:
  "asBackgroundAction (JObject [(''action'', JString ''mina_accounts'')]) = Some (OtherAction ''mina_accounts'')"
  by (simp add: asBackgroundAction_def)

lemma lockedWalletWorld_getAccounts:
  "fst (handleMessage exampleEnv GetAccounts lockedWalletWorld) =
     AccountsResult [\<lparr>index = 0, name = ''Account 1'', address = ''B62qexample'',
                      publicKeyHex = ''0a0b''\<rparr>]"
  using exampleWalletStorage_eval
  by (simp add: handleMessage_def lockedWalletWorld_def initialWorld_def getAccounts_def
      updateLastActivity_def getEncryptedWallet_def)

lemma overridingRequest_fields:
  "truthy overridingRequest"
  "getField overridingRequest ''type'' = MINA_PROVIDER_REQUEST"
  "getField overridingRequest ''id'' = JString ''u1''"
  "getField overridingRequest ''method'' = JString ''mina_requestAccounts''"
  by (simp_all add: overridingRequest_def)

lemma exampleRequest_fields:
  "truthy exampleRequest"
  "getField exampleRequest ''type'' = MINA_PROVIDER_REQUEST"
  "getField exampleRequest ''id'' = JString ''u1''"
  "getField exampleRequest ''method'' = JString ''mina_accounts''"
  by (simp_all add: exampleRequest_def)

text \<open>
  C4. The claim: for an origin with no ConnectedSite entry, \<open>mina_requestAccounts\<close> never
  returns real accounts, in any session state. Below, a wallet with one account exists,
  the session is locked and no site is connected. The dispatcher of external requests
  denies \<open>mina_requestAccounts\<close>. The page posts the request with the parameters
  \<open>{action: 'getAccounts'}\<close>: the spread of the parameters replaces the action the content
  script forwards, \<open>handleMessage\<close> runs its \<open>getAccounts\<close> case, and the response posted
  back to the page carries every account of the wallet.
\<close>

theorem relayed_requestAccounts_discloses_accounts:
  "\<not> isUnlocked lockedWalletWorld
   \<and> getConnectedSites (storage lockedWalletWorld) = []
   \<and> getField overridingRequest ''method'' = JString ''mina_requestAccounts''
   \<and> handleExternalMessage ''mina_requestAccounts'' ''https://example.com'' lockedWalletWorld
       = ErrorResult ''User rejected connection''
   \<and> map_option fst (relayedRequest exampleEnv overridingRequest lockedWalletWorld) =
       Some [JObject [(''type'', MINA_PROVIDER_RESPONSE), (''id'', JString ''u1''),
               (''result'', JObject [(''accounts'', JArray
                  [JObject [(''index'', JNumber 0), (''name'', JString ''Account 1''),
                            (''address'', JString ''B62qexample''),
                            (''publicKeyHex'', JString ''0a0b'')]])])]]"
proof -
  have e: "handleExternalMessage ''mina_requestAccounts'' ''https://example.com'' lockedWalletWorld
       = ErrorResult ''User rejected connection''"
    using lockedWalletWorld_session(2) by (simp add: handleExternalMessage_def isSiteConnected_def)
  obtain r w' where h: "handleMessage exampleEnv GetAccounts lockedWalletWorld = (r, w')"
    by (cases "handleMessage exampleEnv GetAccounts lockedWalletWorld")
  with lockedWalletWorld_getAccounts have r: "r = AccountsResult
     [\<lparr>index = 0, name = ''Account 1'', address = ''B62qexample'', publicKeyHex = ''0a0b''\<rparr>]"
    by simp
  have "onMessageListener exampleEnv (forwarded overridingRequest) lockedWalletWorld
      = Some (encodeResponse r, w')"
    by (simp add: onMessageListener_def forwarded_overriding getAccounts_typed h)
  then have "map_option fst (relayedRequest exampleEnv overridingRequest lockedWalletWorld) =
      Some (relayListener (\<lambda>m. Inr (encodeResponse r)) True overridingRequest)"
    using overridingRequest_fields by (simp add: relayedRequest_def)
  also have "relayListener (\<lambda>m. Inr (encodeResponse r)) True overridingRequest =
      [JObject [(''type'', MINA_PROVIDER_RESPONSE), (''id'', JString ''u1''),
               (''result'', JObject [(''accounts'', JArray
                  [JObject [(''index'', JNumber 0), (''name'', JString ''Account 1''),
                            (''address'', JString ''B62qexample''),
                            (''publicKeyHex'', JString ''0a0b'')]])])]]"
    using overridingRequest_fields by (simp add: relayListener_def r encodeAccount_def)
  finally show ?thesis using lockedWalletWorld_session overridingRequest_fields(4) e by simp
qed

theorem relayed_requestAccounts_discloses_accounts_witness:
  "truthy overridingRequest
   \<and> getField overridingRequest ''type'' = MINA_PROVIDER_REQUEST
   \<and> \<not> isSiteConnected ''https://example.com'' (storage lockedWalletWorld)
   \<and> map address (getAccounts (storage lockedWalletWorld)) = [''B62qexample'']
   \<and> (\<exists>w'. relayedRequest exampleEnv overridingRequest lockedWalletWorld =
        Some ([JObject [(''type'', MINA_PROVIDER_RESPONSE), (''id'', JString ''u1''),
               (''result'', JObject [(''accounts'', JArray
                  [JObject [(''index'', JNumber 0), (''name'', JString ''Account 1''),
                            (''address'', JString ''B62qexample''),
                            (''publicKeyHex'', JString ''0a0b'')]])])]], w'))"
proof -
  have c: "\<not> isSiteConnected ''https://example.com'' (storage lockedWalletWorld)"
    using lockedWalletWorld_session(2) by (simp add: isSiteConnected_def)
  have a: "map address (getAccounts (storage lockedWalletWorld)) = [''B62qexample'']"
    using exampleWalletStorage_eval
    by (simp add: lockedWalletWorld_def initialWorld_def getAccounts_def)
  from relayed_requestAccounts_discloses_accounts overridingRequest_fields(1,2) c a
  show ?thesis by auto
qed

text \<open>
  C5. The claim: for an origin with no ConnectedSite entry, \<open>mina_accounts\<close> returns the
  empty account list and never an error result. In the same world, the dispatcher of
  external requests answers with the empty list; the request of the page, relayed by the
  content script, arrives at \<open>handleMessage\<close> as the action "mina_accounts", which its
  \<open>switch\<close> does not know: the page receives the error object
  \<open>{success: false, error: 'Unknown action'}\<close>.
\<close>

theorem relayed_accounts_is_error_object:
  "\<not> isUnlocked lockedWalletWorld
   \<and> getConnectedSites (storage lockedWalletWorld) = []
   \<and> getField exampleRequest ''method'' = JString ''mina_accounts''
   \<and> handleExternalMessage ''mina_accounts'' ''https://example.com'' lockedWalletWorld
       = AddressesResult []
   \<and> map_option fst (relayedRequest exampleEnv exampleRequest lockedWalletWorld) =
       Some [JObject [(''type'', MINA_PROVIDER_RESPONSE), (''id'', JString ''u1''),
               (''result'', JObject [(''success'', JBool False),
                                     (''error'', JString ''Unknown action'')])]]"
proof -
  have e: "handleExternalMessage ''mina_accounts'' ''https://example.com'' lockedWalletWorld
       = AddressesResult []"
    using lockedWalletWorld_session(2) by (simp add: handleExternalMessage_def isSiteConnected_def)
  obtain r w' where h: "handleMessage exampleEnv (OtherAction ''mina_accounts'') lockedWalletWorld = (r, w')"
    by (cases "handleMessage exampleEnv (OtherAction ''mina_accounts'') lockedWalletWorld")
  then have r: "r = Failure ''Unknown action''" by (auto simp: handleMessage_def)
  have "onMessageListener exampleEnv (forwarded exampleRequest) lockedWalletWorld
      = Some (encodeResponse r, w')"
    by (simp add: onMessageListener_def forwarded_example mina_accounts_typed h)
  then have "map_option fst (relayedRequest exampleEnv exampleRequest lockedWalletWorld) =
      Some (relayListener (\<lambda>m. Inr (encodeResponse r)) True exampleRequest)"
    using exampleRequest_fields by (simp add: relayedRequest_def)
  also have "relayListener (\<lambda>m. Inr (encodeResponse r)) True exampleRequest =
      [JObject [(''type'', MINA_PROVIDER_RESPONSE), (''id'', JString ''u1''),
               (''result'', JObject [(''success'', JBool False),
                                     (''error'', JString ''Unknown action'')])]]"
    using exampleRequest_fields by (simp add: relayListener_def r)
  finally show ?thesis using lockedWalletWorld_session exampleRequest_fields(4) e by simp
qed

theorem relayed_accounts_is_error_object_witness:
  "truthy exampleRequest
   \<and> getField exampleRequest ''type'' = MINA_PROVIDER_REQUEST
   \<and> \<not> isSiteConnected ''https://example.com'' (storage lockedWalletWorld)
   \<and> (\<exists>w'. relayedRequest exampleEnv exampleRequest lockedWalletWorld =
        Some ([JObject [(''type'', MINA_PROVIDER_RESPONSE), (''id'', JString ''u1''),
               (''result'', JObject [(''success'', JBool False),
                                     (''error'', JString ''Unknown action'')])]], w'))"
proof -
  have c: "\<not> isSiteConnected ''https://example.com'' (storage lockedWalletWorld)"
    using lockedWalletWorld_session(2) by (simp add: isSiteConnected_def)
  from relayed_accounts_is_error_object exampleRequest_fields(1,2) c
  show ?thesis by auto
qed

section \<open>Account indices\<close>








lemma createAccountAfterRead_result:
  assumes "createAccountAfterRead nm kp wallet = Inr (acct, w')"
  shows "\<exists>w. wallet = Some w \<and> index acct = jsAddOne (maxIndex (accounts w))
     \<and> w' = w\<lparr>accounts := accounts w @ [acct], activeAccountIndex := index acct\<rparr>"
  using assms
  by (auto simp: createAccountAfterRead_def Let_def split: option.splits sum.splits)

lemma importAccountAfterRead_result:
  assumes "importAccountAfterRead hexKp b58Kp key nm wallet = Inr (acct, w')"
  shows "\<exists>w. wallet = Some w \<and> index acct = jsAddOne (maxIndex (accounts w))
     \<and> w' = w\<lparr>accounts := accounts w @ [acct], activeAccountIndex := index acct\<rparr>"
  using assms
  by (auto simp: importAccountAfterRead_def Let_def split: option.splits sum.splits if_splits)

lemma createAccount_result:
  assumes "createAccount nm kp st = Inr (acct, st')"
  shows "\<exists>w. getEncryptedWallet st = Some w \<and> index acct = jsAddOne (maxIndex (accounts w))
     \<and> getEncryptedWallet st' = Some (w\<lparr>accounts := accounts w @ [acct], activeAccountIndex := index acct\<rparr>)"
proof -
  from assms obtain w' where
    a: "createAccountAfterRead nm kp (getEncryptedWallet st) = Inr (acct, w')"
    and s: "st' = setEncryptedWallet w' st"
    by (auto simp: createAccount_def split: sum.splits)
  from createAccountAfterRead_result [OF a] s show ?thesis
    by (auto simp: setEncryptedWallet_def getEncryptedWallet_def)
qed

lemma importAccount_result:
  assumes "importAccountFromPrivateKey hexKp b58Kp key nm st = Inr (acct, st')"
  shows "\<exists>w. getEncryptedWallet st = Some w \<and> index acct = jsAddOne (maxIndex (accounts w))
     \<and> getEncryptedWallet st' = Some (w\<lparr>accounts := accounts w @ [acct], activeAccountIndex := index acct\<rparr>)"
proof -
  from assms obtain w' where
    a: "importAccountAfterRead hexKp b58Kp key nm (getEncryptedWallet st) = Inr (acct, w')"
    and s: "st' = setEncryptedWallet w' st"
    by (auto simp: importAccountFromPrivateKey_def split: sum.splits)
  from importAccountAfterRead_result [OF a] s show ?thesis
    by (auto simp: setEncryptedWallet_def getEncryptedWallet_def)
qed






text \<open>The example storages, evaluated.\<close>

lemma twoAccountStorage_eval:
  "getEncryptedWallet twoAccountStorage = Some
     \<lparr>encryptedMnemonic = ''abandon'', salt = ''placeholder-salt'', iv = ''placeholder-iv'',
      accounts = [\<lparr>index = 0, name = ''Account 1'', address = ''B62qexample'',
                   publicKeyHex = ''0a0b''\<rparr>,
                  \<lparr>index = 1, name = ''second'', address = ''B62qother'',
                   publicKeyHex = ''0e0f''\<rparr>],
      activeAccountIndex = 1\<rparr>"
  using exampleWalletStorage_eval
  by (simp add: twoAccountStorage_def createAccount_def createAccountAfterRead_def jsAddOne_def
      setEncryptedWallet_def getEncryptedWallet_def maxIndex_def otherKeypair_def Let_def)

lemma twoAccountStorage_delete:
  "map_sum id getEncryptedWallet (deleteAccount 1 twoAccountStorage) = Inr (Some
     \<lparr>encryptedMnemonic = ''abandon'', salt = ''placeholder-salt'', iv = ''placeholder-iv'',
      accounts = [\<lparr>index = 0, name = ''Account 1'', address = ''B62qexample'',
                   publicKeyHex = ''0a0b''\<rparr>],
      activeAccountIndex = 0\<rparr>)"
  using twoAccountStorage_eval
  by (simp add: deleteAccount_def splice1_def setEncryptedWallet_def getEncryptedWallet_def
      Let_def)



text \<open>
  A call that ends before the next one begins is the one-step \<open>createAccount\<close>
  (\<open>importAccountFromPrivateKey\<close>) of the section on accounts.
\<close>

lemma serial_call_is_atomic:
  "ilStorage (callStep hexKp b58Kp (Ends c)
      (callStep hexKp b58Kp (Begins c (CallCreateAccount nm kp)) (idle st)))
     = applyWalletOp hexKp b58Kp (OpCreateAccount nm kp) st"
  "ilStorage (callStep hexKp b58Kp (Ends c)
      (callStep hexKp b58Kp (Begins c (CallImportAccount key nm)) (idle st)))
     = applyWalletOp hexKp b58Kp (OpImportAccount key nm) st"
  by (auto simp: idle_def createAccount_def importAccountFromPrivateKey_def split: sum.splits)

text \<open>
  The index is a JavaScript number. With the largest index at \<open>2^53\<close> the sum
  \<open>maxIndex + 1\<close> is \<open>2^53\<close> again, and the new account takes an index already present.
\<close>

lemma createAccount_index_saturates:
  "map_sum id (index \<circ> fst)
     (createAccount (Some ''next'') (Inr exampleKeypair)
        (emptyStorage\<lparr>ENCRYPTED_WALLET := Some
           \<lparr>encryptedMnemonic = ''abandon'', salt = ''placeholder-salt'', iv = ''placeholder-iv'',
            accounts = [\<lparr>index = 2 ^ 53, name = ''Account 1'', address = ''B62qexample'',
                         publicKeyHex = ''0a0b''\<rparr>],
            activeAccountIndex = 2 ^ 53\<rparr>\<rparr>)) = Inr (2 ^ 53)"
  by (simp add: createAccount_def createAccountAfterRead_def getEncryptedWallet_def
      setEncryptedWallet_def maxIndex_def jsAddOne_def Let_def)



section \<open>Deleting an account\<close>

lemma findIndex_Some: "findIndex P xs = Some k \<Longrightarrow> k < length xs \<and> P (xs ! k)"
proof (induction xs arbitrary: k)
  case Nil then show ?case by simp
next
  case (Cons x xs)
  then show ?case by (cases "P x") (auto split: option.splits)
qed

lemma findIndex_None: "(findIndex P xs = None) = (\<not> list_ex P xs)"
  by (induction xs) (auto split: option.splits)

lemma splice1_length: "k < length xs \<Longrightarrow> length (splice1 k xs) + 1 = length xs"
  by (simp add: splice1_def)

lemma splice1_subset: "set (splice1 k xs) \<subseteq> set xs"
  unfolding splice1_def using set_take_subset[of k xs] set_drop_subset[of "Suc k" xs] by auto

lemma splice1_keeps:
  assumes "k < length xs" "x \<in> set xs" "x \<noteq> xs ! k"
  shows "x \<in> set (splice1 k xs)"
proof -
  from id_take_nth_drop [OF assms(1)]
  have "set xs = set (take k xs @ xs ! k # drop (Suc k) xs)" by (rule arg_cong [where f = set])
  then have "x \<in> set (take k xs @ xs ! k # drop (Suc k) xs)" using assms(2) by blast
  with assms(3) show ?thesis by (auto simp: splice1_def)
qed

lemma deleteAccount_success:
  assumes d: "deleteAccount i st = Inr st'" and w: "getEncryptedWallet st = Some w"
  shows "\<exists>k as. findIndex (\<lambda>a. index a = i) (accounts w) = Some k \<and> 1 < length (accounts w)
          \<and> as = splice1 k (accounts w) \<and> as \<noteq> []
          \<and> getEncryptedWallet st' =
               Some (if activeAccountIndex w = i
                     then w\<lparr>accounts := as, activeAccountIndex := index (hd as)\<rparr>
                     else w\<lparr>accounts := as\<rparr>)"
proof -
  from d w have len: "1 < length (accounts w)"
    by (auto simp: deleteAccount_def split: if_splits)
  from d w len obtain k where k: "findIndex (\<lambda>a. index a = i) (accounts w) = Some k"
    by (auto simp: deleteAccount_def split: if_splits option.splits)
  from findIndex_Some[OF k] have kl: "k < length (accounts w)" by simp
  from splice1_length[OF kl] len have ne: "splice1 k (accounts w) \<noteq> []" by auto
  then obtain a as' where as: "splice1 k (accounts w) = a # as'" by (cases "splice1 k (accounts w)") auto
  from d w len k as have "getEncryptedWallet st' =
               Some (if activeAccountIndex w = i
                     then w\<lparr>accounts := splice1 k (accounts w), activeAccountIndex := index (hd (splice1 k (accounts w)))\<rparr>
                     else w\<lparr>accounts := splice1 k (accounts w)\<rparr>)"
    by (auto simp: deleteAccount_def Let_def setEncryptedWallet_def getEncryptedWallet_def split: if_splits)
  with k len ne show ?thesis by blast
qed

lemma deleteAccount_sound:
  assumes d: "deleteAccount i st = Inr st'" and s: "walletSound st"
  shows "\<exists>w w'. getEncryptedWallet st = Some w \<and> getEncryptedWallet st' = Some w'
      \<and> activePointerValid w' \<and> accounts w' \<noteq> []
      \<and> (activeAccountIndex w = i \<longrightarrow> activeAccountIndex w' = index (hd (accounts w')))
      \<and> (activeAccountIndex w \<noteq> i \<longrightarrow> activeAccountIndex w' = activeAccountIndex w)
      \<and> length (accounts w') + 1 = length (accounts w)
      \<and> set (accounts w') \<subseteq> set (accounts w)"
proof -
  from d obtain w where w: "getEncryptedWallet st = Some w"
    by (auto simp: deleteAccount_def split: option.splits)
  from deleteAccount_success[OF d w] obtain k as where
    k: "findIndex (\<lambda>a. index a = i) (accounts w) = Some k" and
    as: "as = splice1 k (accounts w)" "as \<noteq> []" and
    st': "getEncryptedWallet st' =
               Some (if activeAccountIndex w = i
                     then w\<lparr>accounts := as, activeAccountIndex := index (hd as)\<rparr>
                     else w\<lparr>accounts := as\<rparr>)" by blast
  let ?w' = "if activeAccountIndex w = i
                     then w\<lparr>accounts := as, activeAccountIndex := index (hd as)\<rparr>
                     else w\<lparr>accounts := as\<rparr>"
  from findIndex_Some[OF k] have kl: "k < length (accounts w)" and ki: "index (accounts w ! k) = i" by simp_all
  have acc: "accounts ?w' = as" by simp
  have valid: "activePointerValid ?w'"
  proof (cases "activeAccountIndex w = i")
    case True
    then show ?thesis using as(2) by (auto simp: activePointerValid_def list_ex_iff intro: bexI[of _ "hd as"])
  next
    case False
    from s w have "list_ex (\<lambda>a. index a = activeAccountIndex w) (accounts w)"
      by (simp add: walletSound_def activePointerValid_def)
    then obtain x where x: "x \<in> set (accounts w)" "index x = activeAccountIndex w"
      by (auto simp: list_ex_iff)
    with False ki have "x \<noteq> accounts w ! k" by auto
    from splice1_keeps[OF kl x(1) this] have "x \<in> set as" by (simp add: as(1))
    with x(2) False as(2) show ?thesis by (auto simp: activePointerValid_def list_ex_iff)
  qed
  have "length (accounts ?w') + 1 = length (accounts w)" using splice1_length[OF kl] as(1) by simp
  moreover have "set (accounts ?w') \<subseteq> set (accounts w)" using splice1_subset[of k "accounts w"] as(1) by simp
  moreover have "accounts ?w' \<noteq> []" using as(2) by simp
  moreover have "activeAccountIndex w = i \<longrightarrow> activeAccountIndex ?w' = index (hd (accounts ?w'))" by simp
  moreover have "activeAccountIndex w \<noteq> i \<longrightarrow> activeAccountIndex ?w' = activeAccountIndex w" by simp
  ultimately show ?thesis using w st' valid by blast
qed

lemma renameFirst_index: "map index (renameFirst i nm as) = map index as"
  by (induction as) auto

lemma renameFirst_Nil: "(renameFirst i nm as = []) = (as = [])"
  by (cases as) auto

lemma list_ex_index_map: "list_ex (\<lambda>a. index a = j) as = (j \<in> set (map index as))"
  by (auto simp: list_ex_iff)

lemma find_Some_list_ex: "find P xs = Some x \<Longrightarrow> list_ex P xs"
  by (induction xs) (auto split: if_splits)

lemma applyWalletOp_sound:
  assumes "walletSound st"
  shows "walletSound (applyWalletOp hexKp b58Kp op st)"
proof (cases op)
  case (OpCreateWallet m p kp)
  then show ?thesis using assms
    by (auto simp: createWalletFromMnemonic_def walletSound_def activePointerValid_def Let_def
        setEncryptedWallet_def getEncryptedWallet_def split: sum.splits)
next
  case (OpCreateAccount nm kp)
  show ?thesis
  proof (cases "createAccount nm kp st")
    case (Inl e) then show ?thesis using OpCreateAccount assms by simp
  next
    case (Inr p)
    obtain acct st' where p: "p = (acct, st')" by (cases p)
    from createAccount_result[OF Inr[unfolded p]] show ?thesis using OpCreateAccount Inr p
      by (auto simp: walletSound_def activePointerValid_def)
  qed
next
  case (OpImportAccount key nm)
  show ?thesis
  proof (cases "importAccountFromPrivateKey hexKp b58Kp key nm st")
    case (Inl e) then show ?thesis using OpImportAccount assms by simp
  next
    case (Inr p)
    obtain acct st' where p: "p = (acct, st')" by (cases p)
    from importAccount_result[OF Inr[unfolded p]] show ?thesis using OpImportAccount Inr p
      by (auto simp: walletSound_def activePointerValid_def)
  qed
next
  case (OpSetActive i)
  then show ?thesis using assms
    by (auto simp: setActiveAccount_def walletSound_def activePointerValid_def
        setEncryptedWallet_def getEncryptedWallet_def
        split: sum.splits option.splits dest: find_Some_list_ex)
next
  case (OpRename i nm)
  then show ?thesis using assms renameFirst_index[of i nm]
    by (auto simp: renameAccount_def walletSound_def activePointerValid_def list_ex_index_map
        renameFirst_Nil
        setEncryptedWallet_def getEncryptedWallet_def
        split: sum.splits option.splits)
next
  case (OpDelete i)
  show ?thesis
  proof (cases "deleteAccount i st")
    case (Inl e) then show ?thesis using OpDelete assms by simp
  next
    case (Inr st')
    from deleteAccount_sound[OF Inr assms] show ?thesis using OpDelete Inr
      by (auto simp: walletSound_def)
  qed
qed

lemma applyWalletOps_sound:
  "walletSound st \<Longrightarrow> walletSound (applyWalletOps hexKp b58Kp ops st)"
  unfolding applyWalletOps_def
  by (induction ops arbitrary: st) (auto intro: applyWalletOp_sound)

text \<open>
  C10. \<open>deleteAccount\<close> throws when there is no wallet, when the wallet has at most one
  account, and when no account has the given index; a call that throws writes nothing.
  A successful deletion from a wallet whose active pointer names an account of the list
  removes exactly one account, leaves the list non-empty, and leaves the pointer on an
  account of the list: on the first remaining account when the deleted one was active,
  unchanged otherwise. Every sequence of the operations of accounts.ts keeps the list
  non-empty and the pointer valid, from an empty storage in particular.
\<close>

theorem deleteAccount_guards_and_pointer:
  "(getEncryptedWallet st = None \<longrightarrow> deleteAccount i st = Inl (Error ''No wallet found''))
   \<and> (\<forall>w. getEncryptedWallet st = Some w \<and> length (accounts w) \<le> 1 \<longrightarrow>
          deleteAccount i st = Inl (Error ''Cannot delete the last account''))
   \<and> (\<forall>w. getEncryptedWallet st = Some w \<and> 1 < length (accounts w)
          \<and> \<not> list_ex (\<lambda>a. index a = i) (accounts w) \<longrightarrow>
          deleteAccount i st = Inl (Error (''Account '' @ numberToString i @ '' not found'')))
   \<and> (\<forall>e. deleteAccount i st = Inl e \<longrightarrow> applyWalletOp hexKp b58Kp (OpDelete i) st = st)
   \<and> (\<forall>st'. deleteAccount i st = Inr st' \<and> walletSound st \<longrightarrow>
          (\<exists>w w'. getEncryptedWallet st = Some w \<and> getEncryptedWallet st' = Some w'
             \<and> activePointerValid w' \<and> accounts w' \<noteq> []
             \<and> (activeAccountIndex w = i \<longrightarrow> activeAccountIndex w' = index (hd (accounts w')))
             \<and> (activeAccountIndex w \<noteq> i \<longrightarrow> activeAccountIndex w' = activeAccountIndex w)
             \<and> length (accounts w') + 1 = length (accounts w)
             \<and> set (accounts w') \<subseteq> set (accounts w)))
   \<and> (walletSound st \<longrightarrow> walletSound (applyWalletOps hexKp b58Kp ops st))
   \<and> walletSound (applyWalletOps hexKp b58Kp ops emptyStorage)"
proof -
  have a: "getEncryptedWallet st = None \<longrightarrow> deleteAccount i st = Inl (Error ''No wallet found'')"
    by (simp add: deleteAccount_def)
  have b: "\<forall>w. getEncryptedWallet st = Some w \<and> length (accounts w) \<le> 1 \<longrightarrow>
          deleteAccount i st = Inl (Error ''Cannot delete the last account'')"
    by (simp add: deleteAccount_def)
  have c: "\<forall>w. getEncryptedWallet st = Some w \<and> 1 < length (accounts w)
          \<and> \<not> list_ex (\<lambda>a. index a = i) (accounts w) \<longrightarrow>
          deleteAccount i st = Inl (Error (''Account '' @ numberToString i @ '' not found''))"
  proof (intro allI impI)
    fix w
    assume h: "getEncryptedWallet st = Some w \<and> 1 < length (accounts w)
          \<and> \<not> list_ex (\<lambda>a. index a = i) (accounts w)"
    then have "findIndex (\<lambda>a. index a = i) (accounts w) = None"
      by (simp add: findIndex_None)
    with h show "deleteAccount i st = Inl (Error (''Account '' @ numberToString i @ '' not found''))"
      by (simp add: deleteAccount_def)
  qed
  have d: "\<forall>e. deleteAccount i st = Inl e \<longrightarrow> applyWalletOp hexKp b58Kp (OpDelete i) st = st"
    by simp
  have e: "\<forall>st'. deleteAccount i st = Inr st' \<and> walletSound st \<longrightarrow>
          (\<exists>w w'. getEncryptedWallet st = Some w \<and> getEncryptedWallet st' = Some w'
             \<and> activePointerValid w' \<and> accounts w' \<noteq> []
             \<and> (activeAccountIndex w = i \<longrightarrow> activeAccountIndex w' = index (hd (accounts w')))
             \<and> (activeAccountIndex w \<noteq> i \<longrightarrow> activeAccountIndex w' = activeAccountIndex w)
             \<and> length (accounts w') + 1 = length (accounts w)
             \<and> set (accounts w') \<subseteq> set (accounts w))"
    using deleteAccount_sound [of i st] by blast
  have f: "walletSound st \<longrightarrow> walletSound (applyWalletOps hexKp b58Kp ops st)"
    using applyWalletOps_sound by blast
  have "walletSound emptyStorage"
    by (simp add: walletSound_def emptyStorage_def getEncryptedWallet_def)
  then have g: "walletSound (applyWalletOps hexKp b58Kp ops emptyStorage)"
    by (rule applyWalletOps_sound)
  from a b c d e f g show ?thesis by blast
qed

theorem deleteAccount_guards_and_pointer_witness:
  "walletSound twoAccountStorage
   \<and> map_sum id getEncryptedWallet (deleteAccount 1 twoAccountStorage) = Inr (Some
       \<lparr>encryptedMnemonic = ''abandon'', salt = ''placeholder-salt'', iv = ''placeholder-iv'',
        accounts = [\<lparr>index = 0, name = ''Account 1'', address = ''B62qexample'',
                     publicKeyHex = ''0a0b''\<rparr>],
        activeAccountIndex = 0\<rparr>)
   \<and> deleteAccount 0 exampleWalletStorage = Inl (Error ''Cannot delete the last account'')
   \<and> deleteAccount 0 emptyStorage = Inl (Error ''No wallet found'')"
proof -
  have s: "walletSound twoAccountStorage"
    using twoAccountStorage_eval by (simp add: walletSound_def activePointerValid_def)
  have n: "getEncryptedWallet emptyStorage = None"
    by (simp add: emptyStorage_def getEncryptedWallet_def)
  from deleteAccount_guards_and_pointer [of emptyStorage 0] n
  have a: "deleteAccount 0 emptyStorage = Inl (Error ''No wallet found'')" by blast
  from deleteAccount_guards_and_pointer [of exampleWalletStorage 0] exampleWalletStorage_eval
  have b: "deleteAccount 0 exampleWalletStorage = Inl (Error ''Cannot delete the last account'')"
    by simp
  from s a b twoAccountStorage_delete show ?thesis by simp
qed

text \<open>
  \<open>getActiveAccount\<close> reads the same pointer as a position in the list. With the accounts
  of index 1 and 2 left and the pointer at 2 (the state after deleting account 0 of three
  while account 2 is active), the pointer names the account of index 2, and
  \<open>getActiveAccount\<close> falls back to the first account.
\<close>

lemma getActiveAccount_reads_position:
  "activePointerValid
     \<lparr>encryptedMnemonic = ''abandon'', salt = ''s'', iv = ''i'',
      accounts = [\<lparr>index = 1, name = ''b'', address = ''B62qb'', publicKeyHex = ''0b''\<rparr>,
                  \<lparr>index = 2, name = ''c'', address = ''B62qc'', publicKeyHex = ''0c''\<rparr>],
      activeAccountIndex = 2\<rparr>
   \<and> getActiveAccount (emptyStorage\<lparr>ENCRYPTED_WALLET := Some
       \<lparr>encryptedMnemonic = ''abandon'', salt = ''s'', iv = ''i'',
        accounts = [\<lparr>index = 1, name = ''b'', address = ''B62qb'', publicKeyHex = ''0b''\<rparr>,
                    \<lparr>index = 2, name = ''c'', address = ''B62qc'', publicKeyHex = ''0c''\<rparr>],
        activeAccountIndex = 2\<rparr>\<rparr>)
     = Some \<lparr>index = 1, name = ''b'', address = ''B62qb'', publicKeyHex = ''0b''\<rparr>"
  by (simp add: activePointerValid_def getActiveAccount_def getEncryptedWallet_def
      emptyStorage_def)

section \<open>Relay\<close>

text \<open>
  C7. For every message the relay accepts (it comes from the page's own window and its
  type is \<open>MINA_PROVIDER_REQUEST\<close>), the listener posts exactly one envelope: its type is
  \<open>MINA_PROVIDER_RESPONSE\<close>, its id is the id of the request, and it carries the reply as
  \<open>result\<close> when \<open>sendMessage\<close> returns, or the message of the thrown error as \<open>error\<close>
  when it throws. The awaited call is taken to settle.
\<close>

theorem relay_posts_one_response:
  assumes "sourceIsWindow" and "truthy message"
    and "getField message ''type'' = MINA_PROVIDER_REQUEST"
  shows "\<exists>envelope. relayListener sendMessage sourceIsWindow message = [envelope]
     \<and> getField envelope ''type'' = MINA_PROVIDER_RESPONSE
     \<and> getField envelope ''id'' = getField message ''id''
     \<and> (case sendMessage (forwarded message) of
           Inr response \<Rightarrow>
             getField envelope ''result'' = response \<and> getField envelope ''error'' = JUndefined
         | Inl err \<Rightarrow>
             getField envelope ''error'' = JString (errorMessage err)
             \<and> getField envelope ''result'' = JUndefined)"
  using assms by (auto simp: relayListener_def split: sum.splits)

theorem relay_posts_one_response_witness:
  "truthy exampleRequest \<and> getField exampleRequest ''type'' = MINA_PROVIDER_REQUEST
   \<and> relayListener (\<lambda>m. Inr (JString ''ok'')) True exampleRequest = [exampleResponse]
   \<and> relayListener (\<lambda>m. Inl (Error ''Could not establish connection'')) True exampleRequest
       = [JObject [(''type'', MINA_PROVIDER_RESPONSE), (''id'', JString ''u1''),
                   (''error'', JString ''Could not establish connection'')]]"
proof -
  have a: "truthy exampleRequest" "getField exampleRequest ''type'' = MINA_PROVIDER_REQUEST"
    by (simp_all add: exampleRequest_def)
  from relay_posts_one_response [OF TrueI a, of "\<lambda>m. Inr (JString ''ok'')"]
    relay_posts_one_response [OF TrueI a, of "\<lambda>m. Inl (Error ''Could not establish connection'')"]
  show ?thesis using a by (simp add: relayListener_def exampleRequest_def exampleResponse_def)
qed

section \<open>Page provider\<close>


text \<open>What a timer callback, and a run of them, leaves alone.\<close>

lemma timeoutCallback_fields [simp]:
  "timers (timeoutCallback r j Q) = timers Q"
  "nextPromise (timeoutCallback r j Q) = nextPromise Q"
  "posted (timeoutCallback r j Q) = posted Q"
  "emitted (timeoutCallback r j Q) = emitted Q"
  by (simp_all add: timeoutCallback_def)

lemma foldl_timeout_fields [simp]:
  "timers (foldl (\<lambda>Q (d, r, j). timeoutCallback r j Q) Q ts) = timers Q"
  "nextPromise (foldl (\<lambda>Q (d, r, j). timeoutCallback r j Q) Q ts) = nextPromise Q"
  by (induction ts arbitrary: Q) (auto simp: split_def)


lemma runTimers_nextPromise [simp]: "nextPromise (runTimers now P) = nextPromise P"
  by (simp add: runTimers_def)















lemma request_fields [simp]:
  "pendingRequests (request now (Inr r) m (Cloneable v) P) = (pendingRequests P)(r \<mapsto> nextPromise P)"
  "settlements (request now (Inr r) m (Cloneable v) P) = settlements P"
  "timers (request now (Inr r) m (Cloneable v) P) = timers P @ [(now + 60000, r, nextPromise P)]"
  "nextPromise (request now (Inr r) m (Cloneable v) P) = Suc (nextPromise P)"
  by (simp_all add: request_def)



























text \<open>The example provider: two calls of \<open>request\<close>, the second with id "u1" at time 10.\<close>

lemma example_next:
  "nextPromise (run [Request 5 (Inr ''u0'') ''mina_chainId'' (Cloneable JUndefined)] initialProvider) = 1"
  by (simp add: run_def initialProvider_def)

lemma example_pending: "pendingRequests exampleProvider ''u1'' = Some 1"
  by (simp add: exampleProvider_def example_next)



text \<open>
  C8. A response envelope whose id is the key of no pending request leaves the provider
  as it was: the pending map, the settlements, the emitted events, the posted messages
  and the timers are unchanged. The listener has no throwing path.
\<close>

theorem unknown_response_changes_nothing:
  assumes "getField message ''type'' = MINA_PROVIDER_RESPONSE"
    and "\<forall>rid. getField message ''id'' = JString rid \<longrightarrow> pendingRequests P rid = None"
  shows "messageListener sourceIsWindow message P = P"
proof -
  have "pendingGet P (getField message ''id'') = None"
    using assms(2) by (cases "getField message ''id''") auto
  with assms(1) show ?thesis by (simp add: messageListener_def)
qed

theorem unknown_response_changes_nothing_witness:
  "getField staleResponse ''type'' = MINA_PROVIDER_RESPONSE
   \<and> pendingRequests exampleProvider ''u9'' = None
   \<and> pendingRequests exampleProvider ''u1'' = Some 1
   \<and> messageListener True staleResponse exampleProvider = exampleProvider"
proof -
  have a: "getField staleResponse ''type'' = MINA_PROVIDER_RESPONSE"
    by (simp add: staleResponse_def)
  have n: "pendingRequests exampleProvider ''u9'' = None"
    by (simp add: exampleProvider_def run_def initialProvider_def)
  have b: "\<forall>rid. getField staleResponse ''id'' = JString rid
             \<longrightarrow> pendingRequests exampleProvider rid = None"
    using n by (simp add: staleResponse_def)
  from unknown_response_changes_nothing [OF a b, of True] a n example_pending
  show ?thesis by simp
qed

end
